theory Spec2Isabelle
  imports Main
begin

section \<open>Strings, as far as FLACer.py uses them\<close>

text \<open>
  Text is \<^typ>\<open>string\<close>, a list of 8-bit characters, and the model is about ASCII text:
  Vorbis comment field names are ASCII by definition, and so are the mode and format
  names the user interface can select. \<open>lower\<close> and \<open>upper\<close> are Python's
  \<^verbatim>\<open>str.lower\<close> and \<^verbatim>\<open>str.upper\<close> on such text.
\<close>

definition lower_char :: "char \<Rightarrow> char" where
  "lower_char c =
     (let n = (of_char c :: nat) in if 65 \<le> n \<and> n \<le> 90 then char_of (n + 32) else c)"

definition upper_char :: "char \<Rightarrow> char" where
  "upper_char c =
     (let n = (of_char c :: nat) in if 97 \<le> n \<and> n \<le> 122 then char_of (n - 32) else c)"

definition lower :: "string \<Rightarrow> string" where
  "lower s = map lower_char s"

definition upper :: "string \<Rightarrow> string" where
  "upper s = map upper_char s"

text \<open>\<^verbatim>\<open>'{x}'\<close> inside an f-string: the text between two apostrophes.\<close>

definition quoted :: "string \<Rightarrow> string" where
  "quoted s = [CHR 0x27] @ s @ [CHR 0x27]"

text \<open>\<^verbatim>\<open>str(n)\<close> of a Python integer: decimal digits, a minus sign when negative.\<close>

definition digit_char :: "nat \<Rightarrow> char" where
  "digit_char d = char_of (48 + d)"

fun str_nat :: "nat \<Rightarrow> string" where
  "str_nat n = (if n < 10 then [digit_char n] else str_nat (n div 10) @ [digit_char (n mod 10)])"

declare str_nat.simps [simp del]

definition str_int :: "int \<Rightarrow> string" where
  "str_int i = (if i < 0 then CHR ''-'' # str_nat (nat (- i)) else str_nat (nat i))"

text \<open>\<^verbatim>\<open>s.split(sep)\<close> for a one-character separator: never an empty list.\<close>

fun split_on :: "char \<Rightarrow> string \<Rightarrow> string list" where
  "split_on sep [] = [[]]"
| "split_on sep (c # cs) =
     (if c = sep then [] # split_on sep cs
      else (case split_on sep cs of
              [] \<Rightarrow> [[c]]
            | seg # segs \<Rightarrow> (c # seg) # segs))"

text \<open>\<^verbatim>\<open>s.rsplit(sep, 1)[0]\<close>: what stands before the last separator, or all
  of \<open>s\<close> when it has none.\<close>

definition rsplit1_first :: "char \<Rightarrow> string \<Rightarrow> string" where
  "rsplit1_first sep s =
     (if sep \<in> set s then rev (tl (dropWhile (\<lambda>c. c \<noteq> sep) (rev s))) else s)"

text \<open>
  \<^verbatim>\<open>int(s)\<close> on ASCII text: surrounding whitespace is stripped, one sign is
  allowed, then decimal digits, where single underscores may stand between digits.
  \<open>None\<close> is the \<^verbatim>\<open>ValueError\<close>. An interpreter that limits the number of
  digits raises the same \<^verbatim>\<open>ValueError\<close> beyond its limit; the limit is not part
  of this function.
\<close>

definition is_space :: "char \<Rightarrow> bool" where
  "is_space c = (let n = (of_char c :: nat) in (9 \<le> n \<and> n \<le> 13) \<or> (28 \<le> n \<and> n \<le> 32))"

definition is_digit :: "char \<Rightarrow> bool" where
  "is_digit c = (let n = (of_char c :: nat) in 48 \<le> n \<and> n \<le> 57)"

definition strip :: "string \<Rightarrow> string" where
  "strip s = rev (dropWhile is_space (rev (dropWhile is_space s)))"

fun py_digits :: "string \<Rightarrow> bool \<Rightarrow> nat \<Rightarrow> nat option" where
  "py_digits [] after_digit acc = (if after_digit then Some acc else None)"
| "py_digits (c # cs) after_digit acc =
     (if is_digit c then py_digits cs True (10 * acc + (of_char c - 48))
      else if c = CHR ''_'' \<and> after_digit then py_digits cs False acc
      else None)"

definition py_int :: "string \<Rightarrow> int option" where
  "py_int s =
     (case strip s of
        [] \<Rightarrow> None
      | c # cs \<Rightarrow>
          if c = CHR ''-'' then map_option (\<lambda>n. - int n) (py_digits cs False 0)
          else if c = CHR ''+'' then map_option int (py_digits cs False 0)
          else map_option int (py_digits (c # cs) False 0))"

section \<open>Exceptions and byte buffers\<close>

text \<open>
  An exception is a value; \<open>str_exn\<close> is Python's \<^verbatim>\<open>str(e)\<close>, the text that
  \<^verbatim>\<open>process_files\<close> puts into its error line. \<open>LibraryError\<close> stands for
  whatever mutagen, pydub or ffmpeg raise.
\<close>

datatype exn =
    ValueError string
  | IndexError string
  | AttributeError string
  | LibraryError string

fun str_exn :: "exn \<Rightarrow> string" where
  "str_exn (ValueError m) = m"
| "str_exn (IndexError m) = m"
| "str_exn (AttributeError m) = m"
| "str_exn (LibraryError m) = m"

type_synonym bytes = "nat list"

text \<open>\<^verbatim>\<open>io.BytesIO\<close>: the bytes held and the position of the cursor.\<close>

record bytesio =
  getvalue :: bytes
  tell :: nat

definition BytesIO :: bytesio where
  "BytesIO = \<lparr>getvalue = [], tell = 0\<rparr>"

definition seek :: "nat \<Rightarrow> bytesio \<Rightarrow> bytesio" where
  "seek pos b = b\<lparr>tell := pos\<rparr>"

text \<open>\<^verbatim>\<open>b.write(data)\<close>: overwrite from the cursor, which moves past the data.
  (A cursor beyond the end pads with zero bytes.)\<close>

definition write_bytes :: "bytes \<Rightarrow> bytesio \<Rightarrow> bytesio" where
  "write_bytes data b =
     \<lparr>getvalue = take (tell b) (getvalue b) @ replicate (tell b - length (getvalue b)) 0
                   @ data @ drop (tell b + length data) (getvalue b),
      tell = tell b + length data\<rparr>"

text \<open>An uploaded file (streamlit's \<^verbatim>\<open>UploadedFile\<close>): a byte buffer with a name.\<close>

record uploaded_file =
  name :: string
  stream :: bytesio

section \<open>What the libraries hand over\<close>

record picture =
  mime :: string
  pic_type :: nat
  desc :: string
  pic_data :: bytes

text \<open>\<^verbatim>\<open>mutagen.flac.FLAC\<close>: \<open>items\<close> is \<^verbatim>\<open>flac_meta.items()\<close>, each key with
  its list of values, in the order the loop meets them.\<close>

record flac_meta =
  items :: "(string \<times> string list) list"
  pictures :: "picture list"

text \<open>\<^verbatim>\<open>pydub.AudioSegment\<close>. \<open>duration_2f\<close> is the text of
  \<^verbatim>\<open>len(audio) / 1000\<close> under the format \<^verbatim>\<open>.2f\<close>; floating-point formatting is
  left to the value.\<close>

record audio_segment =
  pcm :: bytes
  duration_2f :: string

datatype frame_class = TPE1 | TALB | TIT2 | TRCK | TDRC | TCON

text \<open>ID3 frames as the source builds them: \<^verbatim>\<open>frame_class(encoding, text)\<close> and
  \<^verbatim>\<open>APIC(encoding, mime, type, desc, data)\<close>.\<close>

datatype id3_frame =
    TextFrame frame_class nat string
  | APIC nat string nat string bytes

datatype image_format = FORMAT_JPEG | FORMAT_PNG

datatype mp4_value =
    Text string
  | Pairs "(int \<times> int) list"
  | Covers "(bytes \<times> image_format) list"

text \<open>
  \<^verbatim>\<open>mp3_meta.tags\<close> is the list of frames the file came with followed by the frames
  handed to \<^verbatim>\<open>tags.add\<close>, in call order, or \<open>None\<close> when the file has no tag
  object. \<^verbatim>\<open>mp4_meta\<close> is a dictionary from atom names to values; \<open>None\<close> again
  means no tag object yet.
\<close>

type_synonym id3_tags = "id3_frame list option"
type_synonym mp4_tags = "(string \<rightharpoonup> mp4_value) option"

text \<open>
  The library calls of \<^verbatim>\<open>process\<close>, as parameters of the model. Each may raise.
  The readers receive the buffer as the source positions it; the writers return the
  buffer as they leave it, contents and cursor. Where a reader leaves the cursor is not
  tracked: each use that follows either rewinds first or is \<^verbatim>\<open>save\<close>, and how
  \<^verbatim>\<open>save\<close> positions itself is the library's.
\<close>

record library =
  lib_FLAC :: "bytesio \<Rightarrow> exn + flac_meta"
  lib_from_file :: "bytesio \<Rightarrow> exn + audio_segment"
  lib_export :: "audio_segment \<Rightarrow> bytesio \<Rightarrow> string \<Rightarrow> string list \<Rightarrow> exn + bytesio"
  lib_MP3 :: "bytesio \<Rightarrow> exn + id3_tags"
  lib_MP3_save :: "id3_tags \<Rightarrow> bytesio \<Rightarrow> exn + bytesio"
  lib_MP4 :: "bytesio \<Rightarrow> exn + mp4_tags"
  lib_MP4_save :: "mp4_tags \<Rightarrow> bytesio \<Rightarrow> exn + bytesio"

section \<open>The two converters\<close>

subsection \<open>Encoder parameters\<close>

text \<open>
  The parameter list handed to \<^verbatim>\<open>audio.export\<close> and the log line that goes with
  it: the \<^verbatim>\<open>if conversion_type == 'vbr'\<close> of each \<^verbatim>\<open>process\<close>. The bitrate
  is an integer, as in the one call of the source (320), and the mode is a string.
\<close>

definition MP3_LAME_parameters :: "int \<Rightarrow> string \<Rightarrow> string list \<times> string" where
  "MP3_LAME_parameters bitrate conversion_type =
     (let parameters = [''-codec:a'', ''libmp3lame'', ''-id3v2_version'', ''3''] in
      if conversion_type = ''vbr''
      then (parameters @ [''-q:a'', ''0''], ''INFO: Applying VBR encoding (audio only).'')
      else (parameters @ [''-b:a'', str_int bitrate @ ''k''],
            ''INFO: Applying '' @ upper conversion_type @ '' encoding (audio only).''))"

definition AAC_better_parameters :: "int \<Rightarrow> string \<Rightarrow> string list \<times> string" where
  "AAC_better_parameters bitrate conversion_type =
     (let parameters = [''-c:a'', ''aac''] in
      if conversion_type = ''vbr''
      then (parameters @ [''-q:a'', ''2''], ''INFO: Applying VBR encoding (audio only).'')
      else (parameters @ [''-b:a'', str_int bitrate @ ''k''],
            ''INFO: Applying '' @ upper conversion_type @ '' encoding (audio only).''))"

subsection \<open>Tag tables and tag loops\<close>

definition MP3_LAME_tag_map :: "string \<rightharpoonup> frame_class" where
  "MP3_LAME_tag_map =
     map_of [(''artist'', TPE1), (''album'', TALB), (''title'', TIT2),
             (''tracknumber'', TRCK), (''date'', TDRC), (''genre'', TCON)]"

definition AAC_better_tag_map :: "string \<rightharpoonup> string" where
  "AAC_better_tag_map =
     map_of [(''artist'', CHR 0xA9 # ''ART''), (''album'', CHR 0xA9 # ''alb''),
             (''title'', CHR 0xA9 # ''nam''), (''tracknumber'', ''trkn''),
             (''date'', CHR 0xA9 # ''day''), (''genre'', CHR 0xA9 # ''gen'')]"

definition none_has_no_add :: exn where
  "none_has_no_add = AttributeError (quoted ''NoneType'' @ '' object has no attribute '' @ quoted ''add'')"

definition list_index_out_of_range :: exn where
  "list_index_out_of_range = IndexError ''list index out of range''"

text \<open>
  \<^verbatim>\<open>for key, value in flac_meta.items()\<close> of \<^verbatim>\<open>MP3_LAME.process\<close>. The callee
  \<^verbatim>\<open>mp3_meta.tags.add\<close> is evaluated before its argument, so a missing tag object
  is met before an empty value list.
\<close>

fun MP3_LAME_tag_loop :: "(string \<times> string list) list \<Rightarrow> id3_tags \<Rightarrow> exn + id3_tags" where
  "MP3_LAME_tag_loop [] tags = Inr tags"
| "MP3_LAME_tag_loop ((key, val) # rest) tags =
     (case MP3_LAME_tag_map (lower key) of
        None \<Rightarrow> MP3_LAME_tag_loop rest tags
      | Some frame_class \<Rightarrow>
          (case tags of
             None \<Rightarrow> Inl none_has_no_add
           | Some frames \<Rightarrow>
               (case val of
                  [] \<Rightarrow> Inl list_index_out_of_range
                | v # _ \<Rightarrow>
                    MP3_LAME_tag_loop rest (Some (frames @ [TextFrame frame_class 3 v])))))"

definition MP3_LAME_picture :: "picture list \<Rightarrow> id3_tags \<Rightarrow> exn + id3_tags" where
  "MP3_LAME_picture pics tags =
     (case pics of
        [] \<Rightarrow> Inr tags
      | pic # _ \<Rightarrow>
          (case tags of
             None \<Rightarrow> Inl none_has_no_add
           | Some frames \<Rightarrow>
               Inr (Some (frames @ [APIC 3 (mime pic) (pic_type pic) (desc pic) (pic_data pic)]))))"

text \<open>\<^verbatim>\<open>mp4_meta[key] = v\<close>: mutagen creates the tag object on the first assignment.\<close>

definition setitem :: "string \<Rightarrow> mp4_value \<Rightarrow> mp4_tags \<Rightarrow> mp4_tags" where
  "setitem k v tags = Some ((case tags of None \<Rightarrow> Map.empty | Some d \<Rightarrow> d)(k \<mapsto> v))"

text \<open>
  The body of the \<^verbatim>\<open>try\<close> in \<^verbatim>\<open>AAC_better.process\<close>, for the first value
  \<open>v\<close>: \<open>None\<close> is the \<^verbatim>\<open>ValueError\<close> (or \<^verbatim>\<open>IndexError\<close>) that the
  \<^verbatim>\<open>except\<close> catches.
\<close>

definition parse_track :: "string \<Rightarrow> (int \<times> int) option" where
  "parse_track v =
     (case split_on CHR ''/'' v of
        [] \<Rightarrow> None
      | seg0 # segs \<Rightarrow>
          (case py_int seg0 of
             None \<Rightarrow> None
           | Some track_num \<Rightarrow>
               (case segs of
                  [] \<Rightarrow> Some (track_num, 0)
                | seg1 # _ \<Rightarrow>
                    (case py_int seg1 of
                       None \<Rightarrow> None
                     | Some total_tracks \<Rightarrow> Some (track_num, total_tracks)))))"

definition track_warning :: "string \<Rightarrow> string" where
  "track_warning v = ''WARNING: Could not parse track number '' @ quoted v @ ''. Skipping.''"

text \<open>
  \<^verbatim>\<open>for key, value in flac_meta.items()\<close> of \<^verbatim>\<open>AAC_better.process\<close>. With an
  empty value list, \<^verbatim>\<open>value[0]\<close> raises inside the \<^verbatim>\<open>try\<close>, is caught, and is
  raised again by the \<^verbatim>\<open>value[0]\<close> of the warning's f-string.
\<close>

fun AAC_better_tag_loop ::
  "(string \<times> string list) list \<Rightarrow> mp4_tags \<Rightarrow> string list \<Rightarrow> (exn + mp4_tags) \<times> string list" where
  "AAC_better_tag_loop [] tags logger = (Inr tags, logger)"
| "AAC_better_tag_loop ((key, val) # rest) tags logger =
     (case AAC_better_tag_map (lower key) of
        None \<Rightarrow> AAC_better_tag_loop rest tags logger
      | Some tag_key \<Rightarrow>
          if tag_key = ''trkn'' then
            (case val of
               [] \<Rightarrow> (Inl list_index_out_of_range, logger)
             | v # _ \<Rightarrow>
                 (case parse_track v of
                    Some pair \<Rightarrow> AAC_better_tag_loop rest (setitem tag_key (Pairs [pair]) tags) logger
                  | None \<Rightarrow> AAC_better_tag_loop rest tags (logger @ [track_warning v])))
          else
            (case val of
               [] \<Rightarrow> (Inl list_index_out_of_range, logger)
             | v # _ \<Rightarrow> AAC_better_tag_loop rest (setitem tag_key (Text v) tags) logger))"

definition AAC_better_picture :: "picture list \<Rightarrow> mp4_tags \<Rightarrow> mp4_tags" where
  "AAC_better_picture pics tags =
     (case pics of
        [] \<Rightarrow> tags
      | pic # _ \<Rightarrow>
          (let image_format = (if mime pic = ''image/jpeg'' then FORMAT_JPEG else FORMAT_PNG)
           in setitem ''covr'' (Covers [(pic_data pic, image_format)]) tags))"

subsection \<open>process\<close>

text \<open>
  \<^verbatim>\<open>process\<close> returns the output buffer or raises, and appends to the log either
  way: the result is paired with the log. Each \<open>_tagged\<close> function is
  \<^verbatim>\<open>process\<close> up to the line before \<^verbatim>\<open>save\<close>: it yields the tag object about
  to be saved and the buffer it is saved into.
\<close>

definition MP3_LAME_tagged ::
  "library \<Rightarrow> uploaded_file \<Rightarrow> int \<Rightarrow> string \<Rightarrow> string list \<Rightarrow> string
     \<Rightarrow> (exn + id3_tags \<times> bytesio) \<times> string list" where
  "MP3_LAME_tagged L file_data bitrate conversion_type logger filename =
     (let logger = logger @ [''INFO: Starting MP3 conversion for '' @ quoted filename @ ''.''] in
      case lib_FLAC L (seek 0 (stream file_data)) of
        Inl e \<Rightarrow> (Inl e, logger)
      | Inr flac \<Rightarrow>
     (let logger = logger @ [''INFO: Successfully extracted source metadata.''] in
      case lib_from_file L (seek 0 (stream file_data)) of
        Inl e \<Rightarrow> (Inl e, logger)
      | Inr audio \<Rightarrow>
     (let logger = logger @ [''INFO: Loaded audio data. Duration: '' @ duration_2f audio @ ''s.''];
          parameters = MP3_LAME_parameters bitrate conversion_type;
          logger = logger @ [snd parameters] in
      case lib_export L audio BytesIO ''mp3'' (fst parameters) of
        Inl e \<Rightarrow> (Inl e, logger)
      | Inr output_buffer \<Rightarrow>
     (let logger = logger @ [''INFO: Audio conversion complete. Applying metadata.''];
          output_buffer = seek 0 output_buffer in
      case lib_MP3 L output_buffer of
        Inl e \<Rightarrow> (Inl e, logger)
      | Inr tags \<Rightarrow>
     (case MP3_LAME_tag_loop (items flac) tags of
        Inl e \<Rightarrow> (Inl e, logger)
      | Inr tags \<Rightarrow>
     (case MP3_LAME_picture (pictures flac) tags of
        Inl e \<Rightarrow> (Inl e, logger)
      | Inr tags \<Rightarrow> (Inr (tags, output_buffer), logger)))))))"

definition MP3_LAME_process ::
  "library \<Rightarrow> uploaded_file \<Rightarrow> int \<Rightarrow> string \<Rightarrow> string list \<Rightarrow> string
     \<Rightarrow> (exn + bytesio) \<times> string list" where
  "MP3_LAME_process L file_data bitrate conversion_type logger filename =
     (case MP3_LAME_tagged L file_data bitrate conversion_type logger filename of
        (Inl e, logger) \<Rightarrow> (Inl e, logger)
      | (Inr (tags, output_buffer), logger) \<Rightarrow>
          (case lib_MP3_save L tags output_buffer of
             Inl e \<Rightarrow> (Inl e, logger)
           | Inr output_buffer \<Rightarrow>
               (Inr output_buffer,
                logger @ [''INFO: Metadata successfully applied.'',
                          ''SUCCESS: Finished MP3 conversion for '' @ quoted filename @ ''.''])))"

definition AAC_better_tagged ::
  "library \<Rightarrow> uploaded_file \<Rightarrow> int \<Rightarrow> string \<Rightarrow> string list \<Rightarrow> string
     \<Rightarrow> (exn + mp4_tags \<times> bytesio) \<times> string list" where
  "AAC_better_tagged L file_data bitrate conversion_type logger filename =
     (let logger = logger @ [''INFO: Starting M4A (AAC) conversion for '' @ quoted filename @ ''.''] in
      case lib_FLAC L (seek 0 (stream file_data)) of
        Inl e \<Rightarrow> (Inl e, logger)
      | Inr flac \<Rightarrow>
     (let logger = logger @ [''INFO: Successfully extracted source metadata.''] in
      case lib_from_file L (seek 0 (stream file_data)) of
        Inl e \<Rightarrow> (Inl e, logger)
      | Inr audio \<Rightarrow>
     (let logger = logger @ [''INFO: Loaded audio data. Duration: '' @ duration_2f audio @ ''s.''];
          parameters = AAC_better_parameters bitrate conversion_type;
          logger = logger @ [snd parameters] in
      case lib_export L audio BytesIO ''mp4'' (fst parameters) of
        Inl e \<Rightarrow> (Inl e, logger)
      | Inr output_buffer \<Rightarrow>
     (let logger = logger @ [''INFO: Audio conversion complete. Applying metadata.''];
          output_buffer = seek 0 output_buffer in
      case lib_MP4 L output_buffer of
        Inl e \<Rightarrow> (Inl e, logger)
      | Inr tags \<Rightarrow>
     (case AAC_better_tag_loop (items flac) tags logger of
        (Inl e, logger) \<Rightarrow> (Inl e, logger)
      | (Inr tags, logger) \<Rightarrow>
          (Inr (AAC_better_picture (pictures flac) tags, output_buffer), logger))))))"

definition AAC_better_process ::
  "library \<Rightarrow> uploaded_file \<Rightarrow> int \<Rightarrow> string \<Rightarrow> string list \<Rightarrow> string
     \<Rightarrow> (exn + bytesio) \<times> string list" where
  "AAC_better_process L file_data bitrate conversion_type logger filename =
     (case AAC_better_tagged L file_data bitrate conversion_type logger filename of
        (Inl e, logger) \<Rightarrow> (Inl e, logger)
      | (Inr (tags, output_buffer), logger) \<Rightarrow>
          (case lib_MP4_save L tags output_buffer of
             Inl e \<Rightarrow> (Inl e, logger)
           | Inr output_buffer \<Rightarrow>
               (Inr output_buffer,
                logger @ [''INFO: Metadata successfully applied.'',
                          ''SUCCESS: Finished M4A conversion for '' @ quoted filename @ ''.''])))"

section \<open>Selecting a converter\<close>

datatype converter = MP3_LAME | AAC_better

definition get_converter :: "string \<Rightarrow> exn + converter" where
  "get_converter fmt =
     (if fmt = ''mp3'' then Inr MP3_LAME
      else if fmt = ''m4a'' then Inr AAC_better
      else Inl (ValueError ''Unknown format specified''))"

fun process ::
  "converter \<Rightarrow> library \<Rightarrow> uploaded_file \<Rightarrow> int \<Rightarrow> string \<Rightarrow> string list \<Rightarrow> string
     \<Rightarrow> (exn + bytesio) \<times> string list" where
  "process MP3_LAME = MP3_LAME_process"
| "process AAC_better = AAC_better_process"


section \<open>The batch driver\<close>

text \<open>
  \<^verbatim>\<open>st.session_state\<close>: the selected format and type (\<open>None\<close> until a button
  sets them) and the log.
\<close>

record session_state =
  ss_format :: "string option"
  ss_type :: "string option"
  ss_logs :: "string list"

text \<open>
  What \<^verbatim>\<open>process_files\<close> shows: the streamlit calls it makes, in order, each with
  its arguments. A download button carries its label, data, file name and MIME type;
  the data is the output buffer itself or the bytes of the archive, and the archive is
  the compression it was opened with and the entries written, in order, each as the
  name and the bytes handed to \<^verbatim>\<open>writestr\<close>. The spinner and the widgets drawn
  before the convert button are not part of it.
\<close>

datatype zip_compression = ZIP_STORED | ZIP_DEFLATED

record zip_file =
  compression :: zip_compression
  entries :: "(string \<times> bytes) list"

datatype download_data = FileObject bytesio | ZipBytes zip_file

datatype st_call =
    St_success string
  | St_download_button string download_data string string
  | St_warning string
  | St_error string

text \<open>
  The converter-side calls made, in order: one entry for each call of
  \<^verbatim>\<open>Fucktory.get_converter\<close> and of \<^verbatim>\<open>converter.process\<close>, with the format
  or the file name it was called on.
\<close>

datatype call = Call_get_converter string | Call_process converter string

text \<open>
  The result of a run: the session state it leaves, what it showed, the calls it made,
  and the exception that left it uncaught, if any.
\<close>

record outcome =
  session :: session_state
  shown :: "st_call list"
  calls :: "call list"
  uncaught :: "exn option"

definition new_filename :: "string \<Rightarrow> string \<Rightarrow> string" where
  "new_filename file_name selected_format =
     rsplit1_first CHR ''.'' file_name @ ''.'' @ selected_format"

definition dashes :: string where
  "dashes = replicate 30 CHR ''-''"

text \<open>The \<^verbatim>\<open>except Exception as e\<close> of \<^verbatim>\<open>process_files\<close>.\<close>

definition caught :: "session_state \<Rightarrow> string list \<Rightarrow> call list \<Rightarrow> exn \<Rightarrow> outcome" where
  "caught st logger cs e =
     \<lparr>session = st\<lparr>ss_logs := logger @ [''ERROR: An unexpected error occurred: '' @ str_exn e]\<rparr>,
      shown = [St_error (''An error occurred during conversion: '' @ str_exn e)],
      calls = cs,
      uncaught = None\<rparr>"

text \<open>The line \<^verbatim>\<open>f"INFO: Processing file {i+1} of {len(files)}: '{file.name}'"\<close>.\<close>

definition processing_line :: "nat \<Rightarrow> nat \<Rightarrow> string \<Rightarrow> string" where
  "processing_line i n file_name =
     ''INFO: Processing file '' @ str_nat (i + 1) @ '' of '' @ str_nat n @ '': '' @ quoted file_name"

text \<open>
  \<^verbatim>\<open>for i, file in enumerate(files)\<close> inside the \<^verbatim>\<open>with zipfile.ZipFile\<close>:
  \<open>n\<close> is \<^verbatim>\<open>len(files)\<close>, \<open>i\<close> the index of the next file, \<open>written\<close> the entries
  written so far.
\<close>

fun zip_loop ::
  "converter \<Rightarrow> library \<Rightarrow> string \<Rightarrow> string \<Rightarrow> nat \<Rightarrow> nat \<Rightarrow> uploaded_file list
     \<Rightarrow> (string \<times> bytes) list \<Rightarrow> string list \<Rightarrow> call list
     \<Rightarrow> (exn + (string \<times> bytes) list) \<times> string list \<times> call list" where
  "zip_loop converter L selected_format conversion_type n i [] written logger cs = (Inr written, logger, cs)"
| "zip_loop converter L selected_format conversion_type n i (file # rest) written logger cs =
     (let logger = logger @ [dashes, processing_line i n (name file)];
          cs = cs @ [Call_process converter (name file)]
      in case process converter L file 320 conversion_type logger (name file) of
           (Inl e, logger) \<Rightarrow> (Inl e, logger, cs)
         | (Inr output_buffer, logger) \<Rightarrow>
             zip_loop converter L selected_format conversion_type n (i + 1) rest
               (written @ [(new_filename (name file) selected_format, getvalue output_buffer)])
               logger cs)"

definition none_has_no_upper :: exn where
  "none_has_no_upper =
     AttributeError (quoted ''NoneType'' @ '' object has no attribute '' @ quoted ''upper'')"

definition process_files :: "library \<Rightarrow> session_state \<Rightarrow> uploaded_file list \<Rightarrow> outcome" where
  "process_files L st files =
     (let logger = [''BATCH START: Initializing conversion for '' @ str_nat (length files)
                      @ '' file(s).'']
      in case ss_format st of
           None \<Rightarrow>
             \<lparr>session = st\<lparr>ss_logs := logger\<rparr>, shown = [], calls = [],
              uncaught = Some none_has_no_upper\<rparr>
         | Some selected_format \<Rightarrow>
        (case ss_type st of
           None \<Rightarrow>
             \<lparr>session = st\<lparr>ss_logs := logger\<rparr>, shown = [], calls = [],
              uncaught = Some none_has_no_upper\<rparr>
         | Some conversion_type \<Rightarrow>
        (let logger = logger @ [''BATCH INFO: Target format: '' @ upper selected_format
                        @ '', Type: '' @ upper conversion_type @ ''.''];
             cs = [Call_get_converter selected_format]
         in case get_converter selected_format of
              Inl e \<Rightarrow> caught st logger cs e
            | Inr converter \<Rightarrow>
           (case files of
              [file] \<Rightarrow>
                (let cs = cs @ [Call_process converter (name file)]
                 in case process converter L file 320 conversion_type logger (name file) of
                      (Inl e, logger) \<Rightarrow> caught st logger cs e
                    | (Inr output_buffer, logger) \<Rightarrow>
                        \<lparr>session = st\<lparr>ss_logs := logger\<rparr>,
                         shown =
                           [St_success (''Conversion of '' @ quoted (name file) @ '' successful!''),
                            St_download_button
                              (''Download '' @ upper selected_format)
                              (FileObject output_buffer)
                              (new_filename (name file) selected_format)
                              (''audio/'' @ (if selected_format = ''mp3'' then ''mpeg'' else ''mp4''))],
                         calls = cs,
                         uncaught = None\<rparr>)
            | _ \<Rightarrow>
                (case zip_loop converter L selected_format conversion_type (length files) 0
                        files [] logger cs of
                   (Inl e, logger, cs) \<Rightarrow> caught st logger cs e
                 | (Inr written, logger, cs) \<Rightarrow>
                     \<lparr>session = st\<lparr>ss_logs := logger @ [dashes,
                          ''BATCH SUCCESS: All files converted and zipped successfully!'']\<rparr>,
                      shown =
                        [St_success ''All files converted and zipped successfully!'',
                         St_download_button
                           ''Download All as ZIP''
                           (ZipBytes \<lparr>compression = ZIP_DEFLATED, entries = written\<rparr>)
                           ''converted_audio.zip''
                           ''application/zip''],
                      calls = cs,
                      uncaught = None\<rparr>)))))"

text \<open>
  The part of \<^verbatim>\<open>configure_converter_ui\<close> under "3. Convert files":
  \<open>convert_clicked\<close> is what \<^verbatim>\<open>st.button(button_text, ...)\<close> returns, and
  \<open>uploaded_files\<close> what the uploader holds. \<open>truthy\<close> is Python's truth value of
  a string or \<^verbatim>\<open>None\<close>.
\<close>

definition truthy :: "string option \<Rightarrow> bool" where
  "truthy x = (case x of None \<Rightarrow> False | Some s \<Rightarrow> s \<noteq> [])"

definition idle :: "session_state \<Rightarrow> st_call list \<Rightarrow> outcome" where
  "idle st sh = \<lparr>session = st, shown = sh, calls = [], uncaught = None\<rparr>"

definition configure_converter_ui ::
  "library \<Rightarrow> session_state \<Rightarrow> uploaded_file list \<Rightarrow> bool \<Rightarrow> outcome" where
  "configure_converter_ui L st uploaded_files convert_clicked =
     (if truthy (ss_format st) \<and> truthy (ss_type st) then
        (if convert_clicked then
           (if uploaded_files \<noteq> [] then process_files L st uploaded_files
            else idle st [St_warning (''Can'' @ [CHR 0x27] @ ''t make something out of nothing.'')])
         else idle st [])
      else idle st [])"

section \<open>Notions used to state the properties\<close>


text \<open>The result of converting one file of a batch: \<^verbatim>\<open>process_files\<close> calls
  \<^verbatim>\<open>converter.process(file, 320, conversion_type, logger, file.name)\<close>.\<close>

definition converted :: "converter \<Rightarrow> library \<Rightarrow> string \<Rightarrow> uploaded_file \<Rightarrow> exn + bytesio" where
  "converted c L conversion_type file = fst (process c L file 320 conversion_type [] (name file))"

text \<open>The two lines at the head of every batch log.\<close>

definition batch_header :: "nat \<Rightarrow> string \<Rightarrow> string \<Rightarrow> string list" where
  "batch_header n selected_format conversion_type =
     [''BATCH START: Initializing conversion for '' @ str_nat n @ '' file(s).'',
      ''BATCH INFO: Target format: '' @ upper selected_format @ '', Type: ''
         @ upper conversion_type @ ''.'']"

text \<open>The last line that a successful \<^verbatim>\<open>process\<close> appends.\<close>

definition success_line :: "converter \<Rightarrow> string \<Rightarrow> string" where
  "success_line c filename =
     ''SUCCESS: Finished '' @ (case c of MP3_LAME \<Rightarrow> ''MP3'' | AAC_better \<Rightarrow> ''M4A'')
       @ '' conversion for '' @ quoted filename @ ''.''"

text \<open>
  \<open>saved_from\<close>: the buffer is what \<^verbatim>\<open>save\<close> returned when called on the tag
  object that \<^verbatim>\<open>process\<close> built and on the encoder's output, which
  \<^verbatim>\<open>process\<close> had rewound to offset zero before the tags were read.
\<close>

definition saved_from ::
  "converter \<Rightarrow> library \<Rightarrow> uploaded_file \<Rightarrow> int \<Rightarrow> string \<Rightarrow> string \<Rightarrow> bytesio \<Rightarrow> bool" where
  "saved_from c L file_data bitrate conversion_type filename output_buffer =
     (case c of
        MP3_LAME \<Rightarrow>
          (case fst (MP3_LAME_tagged L file_data bitrate conversion_type [] filename) of
             Inl e \<Rightarrow> False
           | Inr (tags, buf) \<Rightarrow> tell buf = 0 \<and> lib_MP3_save L tags buf = Inr output_buffer)
      | AAC_better \<Rightarrow>
          (case fst (AAC_better_tagged L file_data bitrate conversion_type [] filename) of
             Inl e \<Rightarrow> False
           | Inr (tags, buf) \<Rightarrow> tell buf = 0 \<and> lib_MP4_save L tags buf = Inr output_buffer))"

text \<open>\<^verbatim>\<open>mp4_meta.get(k)\<close>: the value stored under an atom name, if any.\<close>

definition item_of :: "mp4_tags \<Rightarrow> string \<Rightarrow> mp4_value option" where
  "item_of tags k = (case tags of None \<Rightarrow> None | Some d \<Rightarrow> d k)"

text \<open>A picture frame, as opposed to a text frame.\<close>

definition is_APIC :: "id3_frame \<Rightarrow> bool" where
  "is_APIC fr = (case fr of APIC _ _ _ _ _ \<Rightarrow> True | TextFrame _ _ _ \<Rightarrow> False)"

text \<open>A log line written by the \<^verbatim>\<open>except\<close> of \<^verbatim>\<open>process_files\<close> starts with
  \<^verbatim>\<open>ERROR:\<close>.\<close>

definition error_line :: "string \<Rightarrow> bool" where
  "error_line l = (take 6 l = ''ERROR:'')"


subsection \<open>A small library and small files, for evaluation\<close>

text \<open>
  A library simple enough to run: the FLAC reader rejects an empty buffer and otherwise
  yields the given metadata; the encoder writes its output and rewinds, as pydub does;
  the two \<^verbatim>\<open>save\<close>s make room at the front, seek to the start and write the tag
  block there, as mutagen's ID3 writer does.
\<close>

definition demo_library :: "flac_meta \<Rightarrow> library" where
  "demo_library meta =
     \<lparr>lib_FLAC = (\<lambda>b. if getvalue b = [] then Inl (LibraryError ''not a valid FLAC file'')
                        else Inr meta),
      lib_from_file = (\<lambda>b. Inr \<lparr>pcm = drop (tell b) (getvalue b), duration_2f = ''0.00''\<rparr>),
      lib_export = (\<lambda>audio out fmt parameters.
                      Inr (seek 0 (write_bytes (length parameters # pcm audio) (seek 0 out)))),
      lib_MP3 = (\<lambda>b. Inr (Some [])),
      lib_MP3_save = (\<lambda>tags b.
                      Inr (write_bytes [73, 68, 51, 3]
                             (seek 0 (b\<lparr>getvalue := replicate 4 0 @ getvalue b\<rparr>)))),
      lib_MP4 = (\<lambda>b. Inr None),
      lib_MP4_save = (\<lambda>tags b.
                      Inr (write_bytes [109, 111, 111, 118]
                             (seek 0 (b\<lparr>getvalue := replicate 4 0 @ getvalue b\<rparr>))))\<rparr>"

definition gif_picture :: picture where
  "gif_picture = \<lparr>mime = ''image/gif'', pic_type = 3, desc = ''front'', pic_data = [71, 73, 70]\<rparr>"

definition jpeg_picture :: picture where
  "jpeg_picture = \<lparr>mime = ''image/jpeg'', pic_type = 4, desc = ''back'', pic_data = [255, 216]\<rparr>"

definition demo_meta :: flac_meta where
  "demo_meta =
     \<lparr>items = [(''ARTIST'', [''Kraftwerk'']), (''TrackNumber'', [''5/12'']), (''Comment'', [''x''])],
      pictures = [jpeg_picture, gif_picture]\<rparr>"

definition abc_meta :: flac_meta where
  "abc_meta =
     \<lparr>items = [(''Title'', [''Intro'']), (''TRACKNUMBER'', [''abc'']), (''genre'', [''Pop''])],
      pictures = [gif_picture, jpeg_picture]\<rparr>"

definition demo_file :: uploaded_file where
  "demo_file = \<lparr>name = ''01 - Intro.v2.flac'', stream = \<lparr>getvalue = [102, 76, 97, 67], tell = 4\<rparr>\<rparr>"

definition other_file :: uploaded_file where
  "other_file = \<lparr>name = ''outro.flac'', stream = \<lparr>getvalue = [102, 76], tell = 0\<rparr>\<rparr>"

definition broken_file :: uploaded_file where
  "broken_file = \<lparr>name = ''broken.flac'', stream = \<lparr>getvalue = [], tell = 0\<rparr>\<rparr>"

definition demo_session :: "string \<Rightarrow> string \<Rightarrow> session_state" where
  "demo_session fmt conversion_type =
     \<lparr>ss_format = Some fmt, ss_type = Some conversion_type, ss_logs = [''old line'']\<rparr>"

definition gif_meta :: flac_meta where
  "gif_meta = \<lparr>items = [], pictures = [gif_picture, jpeg_picture]\<rparr>"


section \<open>The log argument of process\<close>

text \<open>\<^verbatim>\<open>process\<close> only appends to the log: what it returns does not depend on the
  log it is given, and what it appends does not either.\<close>

lemma AAC_better_tag_loop_append:
  "AAC_better_tag_loop its tags (lg @ lg2) =
     (case AAC_better_tag_loop its tags lg2 of (r, out) \<Rightarrow> (r, lg @ out))"
proof (induction its arbitrary: tags lg2)
  case Nil
  show ?case by simp
next
  case (Cons it its)
  obtain key val where it: "it = (key, val)" by (cases it)
  show ?case
    unfolding it
    by (simp add: Cons.IH [symmetric] split: option.splits list.splits)
qed

lemma MP3_LAME_tagged_append:
  "MP3_LAME_tagged L f b ct (lg @ lg2) n =
     (case MP3_LAME_tagged L f b ct lg2 n of (r, out) \<Rightarrow> (r, lg @ out))"
  by (simp add: MP3_LAME_tagged_def Let_def split: sum.splits)

lemma AAC_better_tagged_append:
  "AAC_better_tagged L f b ct (lg @ lg2) n =
     (case AAC_better_tagged L f b ct lg2 n of (r, out) \<Rightarrow> (r, lg @ out))"
proof -
  have loop: "\<And>its tags x. AAC_better_tag_loop its tags (lg @ x) =
     (case AAC_better_tag_loop its tags x of (r, out) \<Rightarrow> (r, lg @ out))"
    by (rule AAC_better_tag_loop_append)
  show ?thesis
    by (simp add: AAC_better_tagged_def Let_def loop split: sum.splits prod.splits)
qed

lemma process_append:
  "process c L f b ct (lg @ lg2) n =
     (case process c L f b ct lg2 n of (r, out) \<Rightarrow> (r, lg @ out))"
proof (cases c)
  case MP3_LAME
  then show ?thesis
    by (simp add: MP3_LAME_process_def MP3_LAME_tagged_append split: sum.splits prod.splits)
next
  case AAC_better
  then show ?thesis
    by (simp add: AAC_better_process_def AAC_better_tagged_append split: sum.splits prod.splits)
qed

lemma process_logger:
  "process c L f b ct lg n = (fst (process c L f b ct [] n), lg @ snd (process c L f b ct [] n))"
  using process_append [of c L f b ct lg "[]" n] by (simp add: split_beta)

section \<open>Bitrate modes\<close>









section \<open>Selecting the converter and the empty upload\<close>

text \<open>
  C7. With no uploaded file, the convert step of \<^verbatim>\<open>configure_converter_ui\<close> calls
  neither \<^verbatim>\<open>get_converter\<close> nor any \<^verbatim>\<open>process\<close>: it leaves the session state
  (and so the log) as it was, and shows the warning when the convert button was clicked
  with a format and a type selected, and nothing otherwise. This holds for every
  library and every selected format, supported or not.
\<close>

theorem no_files_no_converter:
  "calls (configure_converter_ui L st [] convert_clicked) = []
   \<and> session (configure_converter_ui L st [] convert_clicked) = st
   \<and> uncaught (configure_converter_ui L st [] convert_clicked) = None
   \<and> shown (configure_converter_ui L st [] convert_clicked) =
        (if truthy (ss_format st) \<and> truthy (ss_type st) \<and> convert_clicked
         then [St_warning (''Can'' @ [CHR 0x27] @ ''t make something out of nothing.'')]
         else [])"
  by (simp add: configure_converter_ui_def idle_def)

theorem no_files_witness:
  "configure_converter_ui (demo_library demo_meta) (demo_session ''ogg'' ''cbr'') [] True =
     \<lparr>session = demo_session ''ogg'' ''cbr'',
      shown = [St_warning (''Can'' @ [CHR 0x27] @ ''t make something out of nothing.'')],
      calls = [], uncaught = None\<rparr>"
proof -
  have t: "truthy (ss_format (demo_session ''ogg'' ''cbr''))"
    "truthy (ss_type (demo_session ''ogg'' ''cbr''))"
    by (simp_all add: truthy_def demo_session_def)
  from no_files_no_converter [of "demo_library demo_meta" "demo_session ''ogg'' ''cbr''" True] t
  show ?thesis
    by (cases "configure_converter_ui (demo_library demo_meta) (demo_session ''ogg'' ''cbr'') [] True")
       simp
qed

text \<open>The guard is the one of \<^verbatim>\<open>configure_converter_ui\<close>: \<^verbatim>\<open>process_files\<close>
  itself, were it called on no file, would resolve the converter.\<close>

lemma process_files_without_files:
  assumes "ss_format st = Some selected_format" "ss_type st = Some conversion_type"
  shows "calls (process_files L st []) = [Call_get_converter selected_format]"
  using assms
  by (simp add: process_files_def caught_def Let_def split: sum.splits)

text \<open>
  C4, as the code has it. For a format other than \<^verbatim>\<open>'mp3'\<close> and \<^verbatim>\<open>'m4a'\<close>,
  \<^verbatim>\<open>get_converter\<close> raises; \<^verbatim>\<open>process_files\<close> catches it, calls no
  \<^verbatim>\<open>process\<close>, shows one error message and no download; and the log holds the two
  batch header lines, appended before the converter is resolved, and then the one
  error line.
\<close>

theorem unsupported_format_rejected:
  assumes "selected_format \<noteq> ''mp3''" "selected_format \<noteq> ''m4a''"
    and "ss_format st = Some selected_format" "ss_type st = Some conversion_type"
  shows "get_converter selected_format = Inl (ValueError ''Unknown format specified'')
       \<and> process_files L st files =
           \<lparr>session = st\<lparr>ss_logs :=
              [''BATCH START: Initializing conversion for '' @ str_nat (length files) @ '' file(s).'',
               ''BATCH INFO: Target format: '' @ upper selected_format @ '', Type: ''
                 @ upper conversion_type @ ''.'',
               ''ERROR: An unexpected error occurred: Unknown format specified'']\<rparr>,
            shown = [St_error ''An error occurred during conversion: Unknown format specified''],
            calls = [Call_get_converter selected_format],
            uncaught = None\<rparr>"
  using assms by (simp add: get_converter_def process_files_def caught_def)

theorem unsupported_format_witness:
  "''ogg'' \<noteq> ''mp3'' \<and> ''ogg'' \<noteq> ''m4a''
   \<and> get_converter ''ogg'' = Inl (ValueError ''Unknown format specified'')
   \<and> shown (process_files (demo_library demo_meta) (demo_session ''ogg'' ''cbr'') [demo_file, other_file]) =
        [St_error ''An error occurred during conversion: Unknown format specified'']
   \<and> calls (process_files (demo_library demo_meta) (demo_session ''ogg'' ''cbr'') [demo_file, other_file]) =
        [Call_get_converter ''ogg'']"
proof -
  have a: "''ogg'' \<noteq> ''mp3''" and b: "''ogg'' \<noteq> ''m4a''" by simp_all
  have c: "ss_format (demo_session ''ogg'' ''cbr'') = Some ''ogg''"
    and d: "ss_type (demo_session ''ogg'' ''cbr'') = Some ''cbr''"
    by (simp_all add: demo_session_def)
  from unsupported_format_rejected [OF a b c d, of "demo_library demo_meta" "[demo_file, other_file]"]
  show ?thesis by simp
qed

text \<open>Against C4 as the specification words it, "no log entries beyond the rejection
  itself": for \<^verbatim>\<open>'ogg'\<close> the log has three entries, and the first two are not the
  rejection.\<close>

theorem unsupported_format_log_counterexample:
  "ss_logs (session (process_files (demo_library demo_meta) (demo_session ''ogg'' ''cbr'') [demo_file])) =
     [''BATCH START: Initializing conversion for 1 file(s).'',
      ''BATCH INFO: Target format: OGG, Type: CBR.'',
      ''ERROR: An unexpected error occurred: Unknown format specified'']"
  by code_simp

section \<open>A successful conversion\<close>

lemma MP3_LAME_tagged_rewound:
  "MP3_LAME_tagged L f b ct lg n = (Inr (tags, buf), out) \<Longrightarrow> tell buf = 0"
  by (auto simp: MP3_LAME_tagged_def Let_def seek_def split: sum.splits)

lemma AAC_better_tagged_rewound:
  "AAC_better_tagged L f b ct lg n = (Inr (tags, buf), out) \<Longrightarrow> tell buf = 0"
  by (auto simp: AAC_better_tagged_def Let_def seek_def split: sum.splits prod.splits)

lemma MP3_LAME_tagged_logger:
  "MP3_LAME_tagged L f b ct lg n =
     (fst (MP3_LAME_tagged L f b ct [] n), lg @ snd (MP3_LAME_tagged L f b ct [] n))"
  using MP3_LAME_tagged_append [of L f b ct lg "[]" n] by (simp add: split_beta)

lemma AAC_better_tagged_logger:
  "AAC_better_tagged L f b ct lg n =
     (fst (AAC_better_tagged L f b ct [] n), lg @ snd (AAC_better_tagged L f b ct [] n))"
  using AAC_better_tagged_append [of L f b ct lg "[]" n] by (simp add: split_beta)

text \<open>
  C8, as the code has it. When \<^verbatim>\<open>process\<close> succeeds, the last two lines it
  appends are "Metadata successfully applied" and the success line, and the buffer it
  returns is the one \<^verbatim>\<open>save\<close> left: \<^verbatim>\<open>process\<close> rewinds the buffer before the
  tags are read and not after they are saved.
\<close>

theorem process_success:
  assumes "fst (process c L file_data bitrate conversion_type logger filename) = Inr output_buffer"
  shows "(\<exists>pre. snd (process c L file_data bitrate conversion_type logger filename) =
            logger @ pre @ [''INFO: Metadata successfully applied.'', success_line c filename])
       \<and> saved_from c L file_data bitrate conversion_type filename output_buffer"
proof (cases c)
  case MP3_LAME
  obtain r where t: "MP3_LAME_tagged L file_data bitrate conversion_type [] filename = r" by simp
  obtain x pre where r: "r = (x, pre)" by (cases r)
  have tl: "MP3_LAME_tagged L file_data bitrate conversion_type logger filename = (x, logger @ pre)"
    using MP3_LAME_tagged_logger [of L file_data bitrate conversion_type logger filename] t r by simp
  from assms MP3_LAME tl obtain tags buf where x: "x = Inr (tags, buf)"
    and s: "lib_MP3_save L tags buf = Inr output_buffer"
    by (auto simp: MP3_LAME_process_def split: sum.splits prod.splits)
  have z: "tell buf = 0" using MP3_LAME_tagged_rewound tl x by blast
  have "snd (process c L file_data bitrate conversion_type logger filename) =
          logger @ pre @ [''INFO: Metadata successfully applied.'', success_line c filename]"
    using MP3_LAME tl x s by (simp add: MP3_LAME_process_def success_line_def)
  moreover have "saved_from c L file_data bitrate conversion_type filename output_buffer"
    using MP3_LAME t r x s z by (simp add: saved_from_def)
  ultimately show ?thesis by blast
next
  case AAC_better
  obtain r where t: "AAC_better_tagged L file_data bitrate conversion_type [] filename = r" by simp
  obtain x pre where r: "r = (x, pre)" by (cases r)
  have tl: "AAC_better_tagged L file_data bitrate conversion_type logger filename = (x, logger @ pre)"
    using AAC_better_tagged_logger [of L file_data bitrate conversion_type logger filename] t r by simp
  from assms AAC_better tl obtain tags buf where x: "x = Inr (tags, buf)"
    and s: "lib_MP4_save L tags buf = Inr output_buffer"
    by (auto simp: AAC_better_process_def split: sum.splits prod.splits)
  have z: "tell buf = 0" using AAC_better_tagged_rewound tl x by blast
  have "snd (process c L file_data bitrate conversion_type logger filename) =
          logger @ pre @ [''INFO: Metadata successfully applied.'', success_line c filename]"
    using AAC_better tl x s by (simp add: AAC_better_process_def success_line_def)
  moreover have "saved_from c L file_data bitrate conversion_type filename output_buffer"
    using AAC_better t r x s z by (simp add: saved_from_def)
  ultimately show ?thesis by blast
qed

text \<open>Against C8 as the specification words it, "read cursor at offset zero": with a
  \<^verbatim>\<open>save\<close> that writes its tag block from the start, both converters return the
  buffer with the cursor behind that block.\<close>

theorem process_cursor_counterexample:
  "fst (process MP3_LAME (demo_library demo_meta) demo_file 320 ''cbr'' [] ''01 - Intro.v2.flac'') =
     Inr \<lparr>getvalue = [73, 68, 51, 3, 6, 102, 76, 97, 67], tell = 4\<rparr>
   \<and> fst (process AAC_better (demo_library demo_meta) demo_file 320 ''cbr'' [] ''01 - Intro.v2.flac'') =
     Inr \<lparr>getvalue = [109, 111, 111, 118, 4, 102, 76, 97, 67], tell = 4\<rparr>"
  by code_simp

theorem process_success_witness:
  "fst (process MP3_LAME (demo_library demo_meta) demo_file 320 ''cbr'' [''old line''] ''a.flac'') =
     Inr \<lparr>getvalue = [73, 68, 51, 3, 6, 102, 76, 97, 67], tell = 4\<rparr>
   \<and> (\<exists>pre. snd (process MP3_LAME (demo_library demo_meta) demo_file 320 ''cbr'' [''old line''] ''a.flac'') =
        [''old line''] @ pre @ [''INFO: Metadata successfully applied.'',
           ''SUCCESS: Finished MP3 conversion for '' @ quoted ''a.flac'' @ ''.''])
   \<and> saved_from MP3_LAME (demo_library demo_meta) demo_file 320 ''cbr'' ''a.flac''
        \<lparr>getvalue = [73, 68, 51, 3, 6, 102, 76, 97, 67], tell = 4\<rparr>"
proof -
  have h: "fst (process MP3_LAME (demo_library demo_meta) demo_file 320 ''cbr'' [''old line''] ''a.flac'') =
     Inr \<lparr>getvalue = [73, 68, 51, 3, 6, 102, 76, 97, 67], tell = 4\<rparr>"
    by code_simp
  from process_success [OF h] h show ?thesis by (simp add: success_line_def)
qed

section \<open>The tag loops\<close>




lemma item_of_setitem: "item_of (setitem k v tags) x = (if x = k then Some v else item_of tags x)"
  by (simp add: item_of_def setitem_def split: option.splits)

lemma MP3_LAME_tag_loop_None:
  "MP3_LAME_tag_loop its None = Inr tags' \<Longrightarrow>
     tags' = None \<and> (\<forall>(k, val) \<in> set its. MP3_LAME_tag_map (lower k) = None)"
  by (induction its) (auto split: option.splits)

lemma MP3_LAME_tag_loop_added:
  "MP3_LAME_tag_loop its (Some frames) = Inr tags' \<Longrightarrow>
     \<exists>added. tags' = Some (frames @ added)
       \<and> (\<forall>fr \<in> set added. \<exists>k v vs cls. (k, v # vs) \<in> set its
             \<and> MP3_LAME_tag_map (lower k) = Some cls \<and> fr = TextFrame cls 3 v)
       \<and> (\<forall>(k, val) \<in> set its. \<forall>cls. MP3_LAME_tag_map (lower k) = Some cls \<longrightarrow>
             (\<exists>v vs. val = v # vs \<and> TextFrame cls 3 v \<in> set added))"
proof (induction its arbitrary: frames)
  case Nil
  then show ?case by simp
next
  case (Cons it its)
  obtain key val where it: "it = (key, val)" by (cases it)
  show ?case
  proof (cases "MP3_LAME_tag_map (lower key)")
    case None
    with Cons.prems it have "MP3_LAME_tag_loop its (Some frames) = Inr tags'" by simp
    from Cons.IH [OF this] obtain added where a: "tags' = Some (frames @ added)"
      and b: "\<forall>fr \<in> set added. \<exists>k v vs cls. (k, v # vs) \<in> set its
             \<and> MP3_LAME_tag_map (lower k) = Some cls \<and> fr = TextFrame cls 3 v"
      and c: "\<forall>(k, val) \<in> set its. \<forall>cls. MP3_LAME_tag_map (lower k) = Some cls \<longrightarrow>
             (\<exists>v vs. val = v # vs \<and> TextFrame cls 3 v \<in> set added)"
      by blast
    show ?thesis
      apply (rule exI [of _ added])
      using a b c None it by fastforce
  next
    case (Some cls)
    with Cons.prems it obtain v vs where val: "val = v # vs"
      and rest: "MP3_LAME_tag_loop its (Some (frames @ [TextFrame cls 3 v])) = Inr tags'"
      by (auto split: list.splits)
    from Cons.IH [OF rest] obtain added where a: "tags' = Some ((frames @ [TextFrame cls 3 v]) @ added)"
      and b: "\<forall>fr \<in> set added. \<exists>k v vs cls. (k, v # vs) \<in> set its
             \<and> MP3_LAME_tag_map (lower k) = Some cls \<and> fr = TextFrame cls 3 v"
      and c: "\<forall>(k, val) \<in> set its. \<forall>cls. MP3_LAME_tag_map (lower k) = Some cls \<longrightarrow>
             (\<exists>v vs. val = v # vs \<and> TextFrame cls 3 v \<in> set added)"
      by blast
    show ?thesis
      apply (rule exI [of _ "TextFrame cls 3 v # added"])
      using a b c Some it val by fastforce
  qed
qed

lemma AAC_better_tag_loop_step_skip:
  "AAC_better_tag_map (lower key) = None \<Longrightarrow>
   AAC_better_tag_loop ((key, val) # rest) tags lg = AAC_better_tag_loop rest tags lg"
  by simp






lemma AAC_better_tag_loop_total:
  "\<forall>(k, val) \<in> set its. val \<noteq> [] \<Longrightarrow> \<exists>tags' lg'. AAC_better_tag_loop its tags lg = (Inr tags', lg')"
proof (induction its arbitrary: tags lg)
  case Nil
  then show ?case by simp
next
  case (Cons it its)
  obtain key val where it: "it = (key, val)" by (cases it)
  from Cons.prems it obtain v vs where val: "val = v # vs" by (cases val) auto
  from Cons.prems have rest: "\<forall>(k, val) \<in> set its. val \<noteq> []" by simp
  show ?case
    unfolding it val using Cons.IH [OF rest]
    by (simp split: option.splits)
qed

lemma MP3_LAME_tag_loop_total:
  "\<forall>(k, val) \<in> set its. val \<noteq> [] \<Longrightarrow> \<exists>tags'. MP3_LAME_tag_loop its (Some frames) = Inr tags'"
proof (induction its arbitrary: frames)
  case Nil
  then show ?case by simp
next
  case (Cons it its)
  obtain key val where it: "it = (key, val)" by (cases it)
  from Cons.prems it obtain v vs where val: "val = v # vs" by (cases val) auto
  from Cons.prems have rest: "\<forall>(k, val) \<in> set its. val \<noteq> []" by simp
  show ?case
    unfolding it val using Cons.IH [OF rest]
    by (simp split: option.splits)
qed

section \<open>The tags about to be saved\<close>

lemma MP3_LAME_tagged_parts:
  assumes "MP3_LAME_tagged L f b ct lg n = (Inr (tags, buf), lg')"
  obtains flac initial t1 where "lib_FLAC L (seek 0 (stream f)) = Inr flac"
    "lib_MP3 L buf = Inr initial" "MP3_LAME_tag_loop (items flac) initial = Inr t1"
    "MP3_LAME_picture (pictures flac) t1 = Inr tags"
  using assms
  by (auto simp: MP3_LAME_tagged_def Let_def split: sum.splits)

lemma AAC_better_tagged_parts:
  assumes "AAC_better_tagged L f b ct lg n = (Inr (tags, buf), lg')"
  obtains flac initial lg0 t1 where "lib_FLAC L (seek 0 (stream f)) = Inr flac"
    "lib_MP4 L buf = Inr initial" "AAC_better_tag_loop (items flac) initial lg0 = (Inr t1, lg')"
    "tags = AAC_better_picture (pictures flac) t1"
  using assms
  by (auto simp: AAC_better_tagged_def Let_def split: sum.splits prod.splits)

lemma MP3_LAME_picture_Some:
  "MP3_LAME_picture pics (Some frames) = Inr tags \<Longrightarrow>
     tags = Some (frames @ (case pics of [] \<Rightarrow> []
        | pic # _ \<Rightarrow> [APIC 3 (mime pic) (pic_type pic) (desc pic) (pic_data pic)]))"
  by (auto simp: MP3_LAME_picture_def split: list.splits)

lemma MP3_LAME_picture_None:
  "MP3_LAME_picture pics None = Inr tags \<Longrightarrow> tags = None \<and> pics = []"
  by (auto simp: MP3_LAME_picture_def split: list.splits)

lemma item_of_AAC_better_picture:
  "item_of (AAC_better_picture pics tags) x =
     (case pics of
        [] \<Rightarrow> item_of tags x
      | pic # _ \<Rightarrow>
          if x = ''covr''
          then Some (Covers [(pic_data pic, if mime pic = ''image/jpeg'' then FORMAT_JPEG else FORMAT_PNG)])
          else item_of tags x)"
  by (simp add: AAC_better_picture_def item_of_setitem Let_def split: list.splits)




lemma MP3_LAME_tagged_only:
  assumes ok: "fst (MP3_LAME_tagged L f b ct lg n) = Inr (Some frames, buf)"
    and src: "lib_FLAC L (seek 0 (stream f)) = Inr flac"
  shows "\<exists>initial added cover. lib_MP3 L buf = Inr (Some initial) \<and> frames = initial @ added @ cover
       \<and> (\<forall>fr \<in> set added. \<exists>k v vs cls. (k, v # vs) \<in> set (items flac)
             \<and> MP3_LAME_tag_map (lower k) = Some cls \<and> fr = TextFrame cls 3 v)
       \<and> cover = (case pictures flac of [] \<Rightarrow> []
            | pic # _ \<Rightarrow> [APIC 3 (mime pic) (pic_type pic) (desc pic) (pic_data pic)])"
proof -
  from ok obtain lg' where "MP3_LAME_tagged L f b ct lg n = (Inr (Some frames, buf), lg')"
    by (cases "MP3_LAME_tagged L f b ct lg n") simp
  then obtain flac' initial t1 where p: "lib_FLAC L (seek 0 (stream f)) = Inr flac'"
    "lib_MP3 L buf = Inr initial" "MP3_LAME_tag_loop (items flac') initial = Inr t1"
    "MP3_LAME_picture (pictures flac') t1 = Inr (Some frames)"
    by (rule MP3_LAME_tagged_parts)
  from p(1) src have [simp]: "flac' = flac" by simp
  show ?thesis
  proof (cases initial)
    case None
    with p(3) MP3_LAME_tag_loop_None [of "items flac" t1] have "t1 = None" by simp
    with p(4) MP3_LAME_picture_None show ?thesis by fastforce
  next
    case (Some frames0)
    with p(3) have "MP3_LAME_tag_loop (items flac) (Some frames0) = Inr t1" by simp
    from MP3_LAME_tag_loop_added [OF this] obtain added where a: "t1 = Some (frames0 @ added)"
      and b: "\<forall>fr \<in> set added. \<exists>k v vs cls. (k, v # vs) \<in> set (items flac)
             \<and> MP3_LAME_tag_map (lower k) = Some cls \<and> fr = TextFrame cls 3 v"
      by blast
    from p(4) a have "MP3_LAME_picture (pictures flac) (Some (frames0 @ added)) = Inr (Some frames)"
      by simp
    from MP3_LAME_picture_Some [OF this]
    have "Some frames = Some ((frames0 @ added) @ (case pictures flac of [] \<Rightarrow> []
        | pic # _ \<Rightarrow> [APIC 3 (mime pic) (pic_type pic) (desc pic) (pic_data pic)]))" .
    with b Some p(2) show ?thesis by auto
  qed
qed

section \<open>Track numbers\<close>

lemma split_on_nonempty: "split_on sep s \<noteq> []"
  by (induction s) (auto split: list.splits)

lemma split_on_segments: "seg \<in> set (split_on sep s) \<Longrightarrow> sep \<notin> set seg"
proof (induction s arbitrary: seg)
  case Nil
  then show ?case by simp
next
  case (Cons c cs)
  then show ?case
    by (cases "split_on sep cs") (auto split: if_splits)
qed

lemma split_on_join: "concat (map (\<lambda>seg. seg @ [sep]) (split_on sep s)) = s @ [sep]"
proof (induction s)
  case Nil
  then show ?case by simp
next
  case (Cons c cs)
  then show ?case
    by (cases "split_on sep cs") (auto simp: split_on_nonempty)
qed



lemma AAC_better_tagged_total:
  assumes "lib_FLAC L (seek 0 (stream f)) = Inr flac"
    and "lib_from_file L (seek 0 (stream f)) = Inr audio"
    and "lib_export L audio BytesIO ''mp4'' (fst (AAC_better_parameters b ct)) = Inr ob"
    and "lib_MP4 L (seek 0 ob) = Inr initial"
    and "\<forall>(k, val) \<in> set (items flac). val \<noteq> []"
  shows "\<exists>tags. fst (AAC_better_tagged L f b ct lg n) = Inr (tags, seek 0 ob)"
proof -
  define lg0 where "lg0 = lg @ [''INFO: Starting M4A (AAC) conversion for '' @ quoted n @ ''.'',
      ''INFO: Successfully extracted source metadata.'',
      ''INFO: Loaded audio data. Duration: '' @ duration_2f audio @ ''s.'',
      snd (AAC_better_parameters b ct),
      ''INFO: Audio conversion complete. Applying metadata.'']"
  from AAC_better_tag_loop_total [OF assms(5), of initial lg0]
  obtain t1 lg1 where "AAC_better_tag_loop (items flac) initial lg0 = (Inr t1, lg1)" by blast
  with assms(1-4) show ?thesis
    by (simp add: AAC_better_tagged_def Let_def lg0_def)
qed


section \<open>Case-insensitive keys\<close>


lemma demo_source:
  "lib_FLAC (demo_library meta) (seek 0 (stream demo_file)) = Inr meta"
  by (simp add: demo_library_def demo_file_def seek_def)



section \<open>Track-number parsing\<close>



text \<open>The small library at work on \<open>demo_file\<close>.\<close>

lemma demo_decode:
  "lib_from_file (demo_library meta) (seek 0 (stream demo_file)) =
     Inr \<lparr>pcm = [102, 76, 97, 67], duration_2f = ''0.00''\<rparr>"
  by (simp add: demo_library_def demo_file_def seek_def)

lemma demo_encode:
  "lib_export (demo_library meta) \<lparr>pcm = [102, 76, 97, 67], duration_2f = ''0.00''\<rparr> BytesIO ''mp4''
     (fst (AAC_better_parameters 320 ''cbr'')) = Inr \<lparr>getvalue = [4, 102, 76, 97, 67], tell = 0\<rparr>"
  by (simp add: demo_library_def seek_def write_bytes_def BytesIO_def AAC_better_parameters_def)

lemma demo_open:
  "lib_MP4 (demo_library meta) b = Inr None"
  by (simp add: demo_library_def)


section \<open>Embedded pictures\<close>

lemma MP3_LAME_tagged_cover:
  assumes ok: "fst (MP3_LAME_tagged L f b ct lg n) = Inr (tags, buf)"
    and src: "lib_FLAC L (seek 0 (stream f)) = Inr flac"
    and pics: "pictures flac = pic # others"
  shows "\<exists>initial added. lib_MP3 L buf = Inr (Some initial)
       \<and> tags = Some (initial @ added @ [APIC 3 (mime pic) (pic_type pic) (desc pic) (pic_data pic)])
       \<and> (\<forall>fr \<in> set added. \<not> is_APIC fr)"
proof -
  from ok obtain lg' where t: "MP3_LAME_tagged L f b ct lg n = (Inr (tags, buf), lg')"
    by (cases "MP3_LAME_tagged L f b ct lg n") simp
  then obtain flac' initial t1 where p: "lib_FLAC L (seek 0 (stream f)) = Inr flac'"
    "lib_MP3 L buf = Inr initial" "MP3_LAME_tag_loop (items flac') initial = Inr t1"
    "MP3_LAME_picture (pictures flac') t1 = Inr tags"
    by (rule MP3_LAME_tagged_parts)
  from p(1) src have [simp]: "flac' = flac" by simp
  from p(4) pics obtain frames where fr: "tags = Some frames"
    by (auto simp: MP3_LAME_picture_def split: option.splits)
  from ok fr have ok': "fst (MP3_LAME_tagged L f b ct lg n) = Inr (Some frames, buf)" by simp
  from MP3_LAME_tagged_only [OF ok' src] pics
  obtain initial added where a: "lib_MP3 L buf = Inr (Some initial)"
    and b: "frames = initial @ added @ [APIC 3 (mime pic) (pic_type pic) (desc pic) (pic_data pic)]"
    and c: "\<forall>fr \<in> set added. \<exists>k v vs cls. (k, v # vs) \<in> set (items flac)
             \<and> MP3_LAME_tag_map (lower k) = Some cls \<and> fr = TextFrame cls 3 v"
    by auto
  from c have "\<forall>fr \<in> set added. \<not> is_APIC fr" by (auto simp: is_APIC_def)
  with a b fr show ?thesis by blast
qed

text \<open>
  C6, as the code has it. When the source file has pictures, a successful run of either
  converter embeds the first one and no other. The MP3 converter appends one
  \<^verbatim>\<open>APIC\<close> frame after the text frames, carrying the picture's MIME type, type
  code, description and data unchanged: it has no image-format indicator of its own.
  The M4A converter sets \<^verbatim>\<open>covr\<close> to one cover with the picture's data, marked
  JPEG exactly when the MIME type is \<^verbatim>\<open>image/jpeg\<close> and PNG for every other MIME
  type.
\<close>

theorem first_picture_embedded:
  assumes src: "lib_FLAC L (seek 0 (stream file_data)) = Inr flac"
    and pics: "pictures flac = pic # others"
  shows "(\<forall>tags buf.
            fst (MP3_LAME_tagged L file_data bitrate conversion_type logger filename) = Inr (tags, buf)
            \<longrightarrow> (\<exists>initial added. lib_MP3 L buf = Inr (Some initial)
                   \<and> tags = Some (initial @ added
                                   @ [APIC 3 (mime pic) (pic_type pic) (desc pic) (pic_data pic)])
                   \<and> (\<forall>fr \<in> set added. \<not> is_APIC fr)))
       \<and> (\<forall>tags buf.
            fst (AAC_better_tagged L file_data bitrate conversion_type logger filename) = Inr (tags, buf)
            \<longrightarrow> item_of tags ''covr'' =
                  Some (Covers [(pic_data pic,
                                 if mime pic = ''image/jpeg'' then FORMAT_JPEG else FORMAT_PNG)]))"
proof (intro conjI allI impI)
  fix tags buf
  assume ok: "fst (MP3_LAME_tagged L file_data bitrate conversion_type logger filename) = Inr (tags, buf)"
  from MP3_LAME_tagged_cover [OF ok src pics]
  show "\<exists>initial added. lib_MP3 L buf = Inr (Some initial)
          \<and> tags = Some (initial @ added @ [APIC 3 (mime pic) (pic_type pic) (desc pic) (pic_data pic)])
          \<and> (\<forall>fr \<in> set added. \<not> is_APIC fr)" .
next
  fix tags buf
  assume ok: "fst (AAC_better_tagged L file_data bitrate conversion_type logger filename) = Inr (tags, buf)"
  from ok obtain lg' where t: "AAC_better_tagged L file_data bitrate conversion_type logger filename
      = (Inr (tags, buf), lg')"
    by (cases "AAC_better_tagged L file_data bitrate conversion_type logger filename") simp
  then obtain flac' initial lg0 t1 where p: "lib_FLAC L (seek 0 (stream file_data)) = Inr flac'"
    "tags = AAC_better_picture (pictures flac') t1"
    by (rule AAC_better_tagged_parts)
  from p(1) src have "flac' = flac" by simp
  with p(2) pics show "item_of tags ''covr'' =
      Some (Covers [(pic_data pic, if mime pic = ''image/jpeg'' then FORMAT_JPEG else FORMAT_PNG)])"
    by (simp add: item_of_AAC_better_picture)
qed

theorem first_picture_witness:
  "lib_FLAC (demo_library demo_meta) (seek 0 (stream demo_file)) = Inr demo_meta
   \<and> pictures demo_meta = jpeg_picture # [gif_picture]
   \<and> pictures abc_meta = gif_picture # [jpeg_picture]
   \<and> (\<exists>tags buf.
         fst (AAC_better_tagged (demo_library demo_meta) demo_file 320 ''cbr'' [] ''a.flac'') = Inr (tags, buf)
         \<and> item_of tags ''covr'' = Some (Covers [([255, 216], FORMAT_JPEG)]))
   \<and> (\<exists>tags buf.
         fst (AAC_better_tagged (demo_library abc_meta) demo_file 320 ''cbr'' [] ''a.flac'') = Inr (tags, buf)
         \<and> item_of tags ''covr'' = Some (Covers [([71, 73, 70], FORMAT_PNG)]))
   \<and> (\<exists>frames buf.
         fst (MP3_LAME_tagged (demo_library demo_meta) demo_file 320 ''cbr'' [] ''a.flac'') = Inr (Some frames, buf)
         \<and> last frames = APIC 3 ''image/jpeg'' 4 ''back'' [255, 216]
         \<and> length (filter is_APIC frames) = 1)"
proof -
  note src = demo_source [of demo_meta]
  have pics: "pictures demo_meta = jpeg_picture # [gif_picture]" by (simp add: demo_meta_def)
  note T = first_picture_embedded [OF src pics, of 320 "''cbr''" "[]" "''a.flac''"]
  note src2 = demo_source [of abc_meta]
  have pics2: "pictures abc_meta = gif_picture # [jpeg_picture]" by (simp add: abc_meta_def)
  note T2 = first_picture_embedded [OF src2 pics2, of 320 "''cbr''" "[]" "''a.flac''"]
  have v1: "\<forall>(k, values) \<in> set (items demo_meta). values \<noteq> []" by (simp add: demo_meta_def)
  have v2: "\<forall>(k, values) \<in> set (items abc_meta). values \<noteq> []" by (simp add: abc_meta_def)
  from AAC_better_tagged_total [OF src demo_decode demo_encode demo_open v1, of "[]" "''a.flac''"]
  obtain tags where ok1:
    "fst (AAC_better_tagged (demo_library demo_meta) demo_file 320 ''cbr'' [] ''a.flac'')
       = Inr (tags, seek 0 \<lparr>getvalue = [4, 102, 76, 97, 67], tell = 0\<rparr>)" by blast
  from T [THEN conjunct2, rule_format, OF ok1]
  have c1: "item_of tags ''covr'' = Some (Covers [([255, 216], FORMAT_JPEG)])"
    by (simp add: jpeg_picture_def)
  from AAC_better_tagged_total [OF src2 demo_decode demo_encode demo_open v2, of "[]" "''a.flac''"]
  obtain tags2 where ok2:
    "fst (AAC_better_tagged (demo_library abc_meta) demo_file 320 ''cbr'' [] ''a.flac'')
       = Inr (tags2, seek 0 \<lparr>getvalue = [4, 102, 76, 97, 67], tell = 0\<rparr>)" by blast
  from T2 [THEN conjunct2, rule_format, OF ok2]
  have c2: "item_of tags2 ''covr'' = Some (Covers [([71, 73, 70], FORMAT_PNG)])"
    by (simp add: gif_picture_def)
  have mp3: "fst (MP3_LAME_tagged (demo_library demo_meta) demo_file 320 ''cbr'' [] ''a.flac'') =
     Inr (Some [TextFrame TPE1 3 ''Kraftwerk'', TextFrame TRCK 3 ''5/12'',
                APIC 3 ''image/jpeg'' 4 ''back'' [255, 216]],
          \<lparr>getvalue = [6, 102, 76, 97, 67], tell = 0\<rparr>)"
    by code_simp
  from T [THEN conjunct1, rule_format, OF mp3] obtain initial added where
    "Some [TextFrame TPE1 3 ''Kraftwerk'', TextFrame TRCK 3 ''5/12'',
                APIC 3 ''image/jpeg'' 4 ''back'' [255, 216]]
      = Some (initial @ added @ [APIC 3 (mime jpeg_picture) (pic_type jpeg_picture)
                                   (desc jpeg_picture) (pic_data jpeg_picture)])"
    by blast
  then have c3: "last [TextFrame TPE1 3 ''Kraftwerk'', TextFrame TRCK 3 ''5/12'',
                APIC 3 ''image/jpeg'' 4 ''back'' [255, 216]] = APIC 3 ''image/jpeg'' 4 ''back'' [255, 216]
      \<and> length (filter is_APIC [TextFrame TPE1 3 ''Kraftwerk'', TextFrame TRCK 3 ''5/12'',
                APIC 3 ''image/jpeg'' 4 ''back'' [255, 216]]) = 1"
    by (simp add: is_APIC_def)
  from src pics pics2 ok1 c1 ok2 c2 mp3 c3 show ?thesis by blast
qed

text \<open>Against C6 as the specification words it, "the PNG indicator for every other MIME
  value", in the MP3 converter: a first picture of type \<^verbatim>\<open>image/gif\<close> is written as
  \<^verbatim>\<open>image/gif\<close>.\<close>

theorem mp3_picture_counterexample:
  "fst (MP3_LAME_tagged (demo_library gif_meta) demo_file 320 ''cbr'' [] ''a.flac'') =
     Inr (Some [APIC 3 ''image/gif'' 3 ''front'' [71, 73, 70]],
          \<lparr>getvalue = [6, 102, 76, 97, 67], tell = 0\<rparr>)
   \<and> pictures gif_meta = [gif_picture, jpeg_picture]
   \<and> mime gif_picture = ''image/gif''"
  by code_simp

section \<open>The batch driver at work\<close>

text \<open>\<open>rsplit1_first\<close> is the stem: what precedes the last separator.\<close>

lemma rsplit1_first_none: "sep \<notin> set s \<Longrightarrow> rsplit1_first sep s = s"
  by (simp add: rsplit1_first_def)

lemma rsplit1_first_last: "sep \<notin> set b \<Longrightarrow> rsplit1_first sep (a @ sep # b) = a"
proof -
  assume b: "sep \<notin> set b"
  then have "dropWhile (\<lambda>c. c \<noteq> sep) (rev b @ sep # rev a) = sep # rev a"
    by (induction b rule: rev_induct) auto
  then show ?thesis by (simp add: rsplit1_first_def)
qed

lemma process_converted:
  "process c L file 320 ct lg (name file) =
     (converted c L ct file, lg @ snd (process c L file 320 ct [] (name file)))"
  using process_logger [of c L "file" 320 ct lg "name file"] by (simp add: converted_def)

lemma AAC_better_tag_loop_no_error:
  "AAC_better_tag_loop its tags lg = (r, lg') \<Longrightarrow> \<forall>l \<in> set lg. \<not> error_line l
     \<Longrightarrow> \<forall>l \<in> set lg'. \<not> error_line l"
proof (induction its arbitrary: tags lg)
  case Nil
  then show ?case by simp
next
  case (Cons it its)
  obtain key val where it: "it = (key, val)" by (cases it)
  have w: "\<And>v. \<not> error_line (track_warning v)"
    by (simp add: error_line_def track_warning_def)
  from Cons.prems(1) [unfolded it] consider
      "(r, lg') = (Inl list_index_out_of_range, lg)"
    | tags2 where "AAC_better_tag_loop its tags2 lg = (r, lg')"
    | v where "AAC_better_tag_loop its tags (lg @ [track_warning v]) = (r, lg')"
    by (auto split: option.splits list.splits if_splits)
  then show ?case
  proof cases
    case 1
    with Cons.prems(2) show ?thesis by simp
  next
    case 2
    from Cons.IH [OF 2 Cons.prems(2)] show ?thesis .
  next
    case 3
    from Cons.prems(2) w have "\<forall>l \<in> set (lg @ [track_warning v]). \<not> error_line l" by simp
    from Cons.IH [OF 3 this] show ?thesis .
  qed
qed

lemma MP3_LAME_process_no_error:
  "l \<in> set (snd (MP3_LAME_process L f b ct [] n)) \<Longrightarrow> \<not> error_line l"
  by (auto simp: MP3_LAME_process_def MP3_LAME_tagged_def MP3_LAME_parameters_def Let_def
        error_line_def split: sum.splits if_splits)

lemma AAC_better_tagged_no_error:
  "l \<in> set (snd (AAC_better_tagged L f b ct [] n)) \<Longrightarrow> \<not> error_line l"
proof -
  have loop: "\<And>its tags lg r lg'. AAC_better_tag_loop its tags lg = (r, lg') \<Longrightarrow>
      \<forall>l \<in> set lg. \<not> error_line l \<Longrightarrow> l \<in> set lg' \<Longrightarrow> \<not> error_line l"
    using AAC_better_tag_loop_no_error by blast
  assume "l \<in> set (snd (AAC_better_tagged L f b ct [] n))"
  then show ?thesis
    by (auto simp: AAC_better_tagged_def AAC_better_parameters_def Let_def error_line_def
          split: sum.splits if_splits prod.splits
          dest!: loop [unfolded error_line_def])
qed


lemma process_no_error:
  "l \<in> set (snd (process c L f b ct [] n)) \<Longrightarrow> \<not> error_line l"
proof (cases c)
  case MP3_LAME
  assume "l \<in> set (snd (process c L f b ct [] n))"
  with MP3_LAME show ?thesis using MP3_LAME_process_no_error by simp
next
  case AAC_better
  assume "l \<in> set (snd (process c L f b ct [] n))"
  with AAC_better have "l \<in> set (snd (AAC_better_process L f b ct [] n))" by simp
  then have "l \<in> set (snd (AAC_better_tagged L f b ct [] n))
      \<or> l = ''INFO: Metadata successfully applied.''
      \<or> l = ''SUCCESS: Finished M4A conversion for '' @ quoted n @ ''.''"
    by (auto simp: AAC_better_process_def split: sum.splits prod.splits)
  then show ?thesis
    using AAC_better_tagged_no_error [of l L f b ct n] by (auto simp: error_line_def)
qed

lemma dashes_no_error: "\<not> error_line dashes"
  by code_simp

lemma processing_line_no_error: "\<not> error_line (processing_line i n file_name)"
  by (simp add: error_line_def processing_line_def)

lemma zip_loop_Cons_ok:
  "converted c L ct f = Inr out \<Longrightarrow>
   zip_loop c L fmt ct n i (f # rest) written lg cs =
     zip_loop c L fmt ct n (i + 1) rest (written @ [(new_filename (name f) fmt, getvalue out)])
       ((lg @ [dashes, processing_line i n (name f)]) @ snd (process c L f 320 ct [] (name f)))
       (cs @ [Call_process c (name f)])"
  by (simp add: process_converted [of c L f ct "lg @ [dashes, processing_line i n (name f)]"])

lemma zip_loop_Cons_fail:
  "converted c L ct f = Inl e \<Longrightarrow>
   zip_loop c L fmt ct n i (f # rest) written lg cs =
     (Inl e, (lg @ [dashes, processing_line i n (name f)]) @ snd (process c L f 320 ct [] (name f)),
      cs @ [Call_process c (name f)])"
  by (simp add: process_converted [of c L f ct "lg @ [dashes, processing_line i n (name f)]"])

lemma file_log_no_error:
  assumes "\<forall>l \<in> set lg. \<not> error_line l"
  shows "\<forall>l \<in> set ((lg @ [dashes, processing_line i n (name f)])
                      @ snd (process c L f 320 ct [] (name f))). \<not> error_line l"
  using assms dashes_no_error processing_line_no_error process_no_error [of _ c L f 320 ct "name f"]
  by auto

text \<open>The loop over a batch whose files all convert.\<close>

lemma zip_loop_success:
  "map (converted c L ct) files = map Inr outs \<Longrightarrow>
   \<exists>lg'. zip_loop c L fmt ct n i files written lg cs =
     (Inr (written @ map (\<lambda>(f, out). (new_filename (name f) fmt, getvalue out)) (zip files outs)),
      lg', cs @ map (\<lambda>f. Call_process c (name f)) files)"
proof (induction files arbitrary: outs i written lg cs)
  case Nil
  then show ?case by simp
next
  case (Cons f files)
  from Cons.prems obtain out outs' where outs: "outs = out # outs'"
    and f: "converted c L ct f = Inr out" and rest: "map (converted c L ct) files = map Inr outs'"
    by (cases outs) auto
  from Cons.IH [OF rest, of "i + 1" "written @ [(new_filename (name f) fmt, getvalue out)]"
      "(lg @ [dashes, processing_line i n (name f)]) @ snd (process c L f 320 ct [] (name f))"
      "cs @ [Call_process c (name f)]"]
  obtain lg' where "zip_loop c L fmt ct n (i + 1) files
      (written @ [(new_filename (name f) fmt, getvalue out)])
      ((lg @ [dashes, processing_line i n (name f)]) @ snd (process c L f 320 ct [] (name f)))
      (cs @ [Call_process c (name f)]) =
     (Inr ((written @ [(new_filename (name f) fmt, getvalue out)])
            @ map (\<lambda>(f, out). (new_filename (name f) fmt, getvalue out)) (zip files outs')),
      lg', (cs @ [Call_process c (name f)]) @ map (\<lambda>f. Call_process c (name f)) files)"
    by blast
  then show ?case
    unfolding outs zip_loop_Cons_ok [OF f] by simp
qed

text \<open>The loop over a batch with a first file that fails.\<close>

lemma zip_loop_failure:
  "map (converted c L ct) done = map Inr outs \<Longrightarrow> converted c L ct f = Inl e
   \<Longrightarrow> \<forall>l \<in> set lg. \<not> error_line l
   \<Longrightarrow> \<exists>lg'. zip_loop c L fmt ct n i (done @ f # rest) written lg cs =
         (Inl e, lg', cs @ map (\<lambda>f. Call_process c (name f)) (done @ [f]))
       \<and> (\<forall>l \<in> set lg'. \<not> error_line l)"
proof (induction "done" arbitrary: outs i written lg cs)
  case Nil
  from file_log_no_error [OF Nil.prems(3)] show ?case
    unfolding append_Nil zip_loop_Cons_fail [OF Nil.prems(2)] by simp
next
  case (Cons g gs)
  from Cons.prems(1) obtain out outs' where outs: "outs = out # outs'"
    and g: "converted c L ct g = Inr out" and more: "map (converted c L ct) gs = map Inr outs'"
    by (cases outs) auto
  from Cons.IH [OF more Cons.prems(2) file_log_no_error [OF Cons.prems(3), of i n g c L ct],
      of "i + 1" "written @ [(new_filename (name g) fmt, getvalue out)]"
      "cs @ [Call_process c (name g)]"]
  obtain lg' where "zip_loop c L fmt ct n (i + 1) (gs @ f # rest)
      (written @ [(new_filename (name g) fmt, getvalue out)])
      ((lg @ [dashes, processing_line i n (name g)]) @ snd (process c L g 320 ct [] (name g)))
      (cs @ [Call_process c (name g)]) =
     (Inl e, lg', (cs @ [Call_process c (name g)]) @ map (\<lambda>f. Call_process c (name f)) (gs @ [f]))"
    and "\<forall>l \<in> set lg'. \<not> error_line l"
    by blast
  then show ?case
    unfolding append_Cons zip_loop_Cons_ok [OF g] by simp
qed

lemma first_failure:
  assumes "\<exists>f \<in> set files. \<exists>e. converted c L ct f = Inl e"
  obtains "done" f rest outs e where "files = done @ f # rest"
    "map (converted c L ct) done = map Inr outs" "converted c L ct f = Inl e"
proof -
  from assms obtain ys x zs where s: "files = ys @ x # zs" and x: "\<exists>e. converted c L ct x = Inl e"
    and ys: "\<forall>y \<in> set ys. \<not> (\<exists>e. converted c L ct y = Inl e)"
    using split_list_first_prop [of files "\<lambda>f. \<exists>e. converted c L ct f = Inl e"] by blast
  from x obtain e where e: "converted c L ct x = Inl e" by blast
  have "map (converted c L ct) ys = map Inr (map (\<lambda>y. projr (converted c L ct y)) ys)"
  proof (simp, intro ballI)
    fix y
    assume "y \<in> set ys"
    with ys have "\<not> (\<exists>e. converted c L ct y = Inl e)" by blast
    then show "converted c L ct y = Inr (projr (converted c L ct y))"
      by (cases "converted c L ct y") auto
  qed
  with s e that show ?thesis by blast
qed


lemma batch_header_no_error: "\<forall>l \<in> set (batch_header n fmt ct). \<not> error_line l"
  by (simp add: batch_header_def error_line_def)

lemma process_files_single:
  assumes "ss_format st = Some fmt" "ss_type st = Some ct" "get_converter fmt = Inr c"
  shows "process_files L st [f] =
     (case converted c L ct f of
        Inl e \<Rightarrow>
          caught st (batch_header 1 fmt ct @ snd (process c L f 320 ct [] (name f)))
            [Call_get_converter fmt, Call_process c (name f)] e
      | Inr output_buffer \<Rightarrow>
          \<lparr>session = st\<lparr>ss_logs := batch_header 1 fmt ct @ snd (process c L f 320 ct [] (name f))\<rparr>,
           shown =
             [St_success (''Conversion of '' @ quoted (name f) @ '' successful!''),
              St_download_button (''Download '' @ upper fmt) (FileObject output_buffer)
                (new_filename (name f) fmt)
                (''audio/'' @ (if fmt = ''mp3'' then ''mpeg'' else ''mp4''))],
           calls = [Call_get_converter fmt, Call_process c (name f)],
           uncaught = None\<rparr>)"
proof -
  have p: "process c L f 320 ct (batch_header 1 fmt ct) (name f) =
     (converted c L ct f, batch_header 1 fmt ct @ snd (process c L f 320 ct [] (name f)))"
    by (rule process_converted)
  show ?thesis
    using assms p
    by (simp add: process_files_def batch_header_def split: sum.splits)
qed

lemma process_files_multi:
  assumes "ss_format st = Some fmt" "ss_type st = Some ct" "get_converter fmt = Inr c"
    and "length files \<noteq> 1"
  shows "process_files L st files =
     (case zip_loop c L fmt ct (length files) 0 files [] (batch_header (length files) fmt ct)
             [Call_get_converter fmt] of
        (Inl e, logger, cs) \<Rightarrow> caught st logger cs e
      | (Inr written, logger, cs) \<Rightarrow>
          \<lparr>session = st\<lparr>ss_logs := logger @ [dashes,
               ''BATCH SUCCESS: All files converted and zipped successfully!'']\<rparr>,
           shown =
             [St_success ''All files converted and zipped successfully!'',
              St_download_button ''Download All as ZIP''
                (ZipBytes \<lparr>compression = ZIP_DEFLATED, entries = written\<rparr>)
                ''converted_audio.zip'' ''application/zip''],
           calls = cs,
           uncaught = None\<rparr>)"
proof (cases files)
  case Nil
  with assms show ?thesis
    by (simp add: process_files_def batch_header_def)
next
  case (Cons f fs)
  with assms(4) obtain g gs where fs: "fs = g # gs" by (cases fs) auto
  with Cons assms(1-3) show ?thesis
    unfolding process_files_def batch_header_def Let_def
    by (simp del: zip_loop.simps)
qed


lemma error_line_error: "error_line (''ERROR: An unexpected error occurred: '' @ x)"
  by (simp add: error_line_def)

text \<open>
  C5. When the conversion of some file of the batch raises, with \<open>failing\<close> the first
  such file and \<open>e\<close> its exception: \<^verbatim>\<open>process_files\<close> lets no exception escape;
  it shows the one error message and nothing else, so no download, neither of an
  archive nor of a file converted before; its log ends with the one error line and has
  no other line starting with \<^verbatim>\<open>ERROR:\<close>; and \<^verbatim>\<open>process\<close> was called on the files
  up to the failing one and on none after it.
\<close>

theorem failing_file_discards_batch:
  assumes fmt: "get_converter selected_format = Inr c"
    and sf: "ss_format st = Some selected_format" and sc: "ss_type st = Some conversion_type"
    and fail: "\<exists>f \<in> set files. \<exists>e. converted c L conversion_type f = Inl e"
  shows "\<exists>done failing rest outs e pre.
       files = done @ failing # rest
     \<and> map (converted c L conversion_type) done = map Inr outs
     \<and> converted c L conversion_type failing = Inl e
     \<and> uncaught (process_files L st files) = None
     \<and> shown (process_files L st files) =
         [St_error (''An error occurred during conversion: '' @ str_exn e)]
     \<and> ss_logs (session (process_files L st files)) =
         pre @ [''ERROR: An unexpected error occurred: '' @ str_exn e]
     \<and> filter error_line pre = []
     \<and> length (filter error_line (ss_logs (session (process_files L st files)))) = 1
     \<and> calls (process_files L st files) =
         Call_get_converter selected_format # map (\<lambda>f. Call_process c (name f)) (done @ [failing])"
proof -
  from fail obtain "done" failing rest outs e where split: "files = done @ failing # rest"
    and ok: "map (converted c L conversion_type) done = map Inr outs"
    and bad: "converted c L conversion_type failing = Inl e"
    by (rule first_failure)
  define hdr where "hdr = batch_header (length files) selected_format conversion_type"
  have hdr: "\<forall>l \<in> set hdr. \<not> error_line l"
    unfolding hdr_def by (rule batch_header_no_error)
  have "\<exists>pre. process_files L st files =
          caught st pre (Call_get_converter selected_format
                          # map (\<lambda>f. Call_process c (name f)) (done @ [failing])) e
        \<and> (\<forall>l \<in> set pre. \<not> error_line l)"
  proof (cases "length files = 1")
    case True
    with split have one: "files = [failing]" and d: "done = []" by (cases "done"; simp)+
    have clean: "\<forall>l \<in> set (hdr @ snd (process c L failing 320 conversion_type [] (name failing))).
        \<not> error_line l"
      using hdr process_no_error [of _ c L failing 320 conversion_type "name failing"] by auto
    have "process_files L st files =
        caught st (hdr @ snd (process c L failing 320 conversion_type [] (name failing)))
          [Call_get_converter selected_format, Call_process c (name failing)] e"
      unfolding one hdr_def using process_files_single [OF sf sc fmt, of L failing] bad
      by simp
    with clean d show ?thesis by auto
  next
    case False
    from zip_loop_failure [OF ok bad hdr, of selected_format "length files" 0 rest "[]"
        "[Call_get_converter selected_format]"]
    obtain lg' where z: "zip_loop c L selected_format conversion_type (length files) 0
          (done @ failing # rest) [] hdr [Call_get_converter selected_format] =
        (Inl e, lg', [Call_get_converter selected_format]
                      @ map (\<lambda>f. Call_process c (name f)) (done @ [failing]))"
      and clean: "\<forall>l \<in> set lg'. \<not> error_line l" by blast
    have "process_files L st files =
        caught st lg' ([Call_get_converter selected_format]
                      @ map (\<lambda>f. Call_process c (name f)) (done @ [failing])) e"
      using process_files_multi [OF sf sc fmt False, of L] z
      unfolding split hdr_def by simp
    with clean show ?thesis by auto
  qed
  then obtain pre where pf: "process_files L st files =
          caught st pre (Call_get_converter selected_format
                          # map (\<lambda>f. Call_process c (name f)) (done @ [failing])) e"
    and clean: "\<forall>l \<in> set pre. \<not> error_line l" by blast
  from clean have none: "filter error_line pre = []" by (simp add: filter_empty_conv)
  have "uncaught (process_files L st files) = None
     \<and> shown (process_files L st files) =
         [St_error (''An error occurred during conversion: '' @ str_exn e)]
     \<and> ss_logs (session (process_files L st files)) =
         pre @ [''ERROR: An unexpected error occurred: '' @ str_exn e]
     \<and> length (filter error_line (ss_logs (session (process_files L st files)))) = 1
     \<and> calls (process_files L st files) =
         Call_get_converter selected_format # map (\<lambda>f. Call_process c (name f)) (done @ [failing])"
    unfolding pf caught_def using none error_line_error [of "str_exn e"] by simp
  with split ok bad none show ?thesis by blast
qed

theorem failing_file_witness:
  "get_converter ''m4a'' = Inr AAC_better
   \<and> converted AAC_better (demo_library demo_meta) ''abr'' broken_file =
        Inl (LibraryError ''not a valid FLAC file'')
   \<and> broken_file \<in> set [demo_file, broken_file, other_file]
   \<and> (\<exists>e. shown (process_files (demo_library demo_meta) (demo_session ''m4a'' ''abr'')
                    [demo_file, broken_file, other_file]) =
              [St_error (''An error occurred during conversion: '' @ str_exn e)])
   \<and> length (filter error_line
        (ss_logs (session (process_files (demo_library demo_meta) (demo_session ''m4a'' ''abr'')
                    [demo_file, broken_file, other_file])))) = 1
   \<and> shown (process_files (demo_library demo_meta) (demo_session ''m4a'' ''abr'')
               [demo_file, broken_file, other_file]) =
        [St_error ''An error occurred during conversion: not a valid FLAC file'']
   \<and> calls (process_files (demo_library demo_meta) (demo_session ''m4a'' ''abr'')
               [demo_file, broken_file, other_file]) =
        [Call_get_converter ''m4a'', Call_process AAC_better ''01 - Intro.v2.flac'',
         Call_process AAC_better ''broken.flac'']"
proof -
  have fmt: "get_converter ''m4a'' = Inr AAC_better" by (simp add: get_converter_def)
  have sf: "ss_format (demo_session ''m4a'' ''abr'') = Some ''m4a''"
    and sc: "ss_type (demo_session ''m4a'' ''abr'') = Some ''abr''"
    by (simp_all add: demo_session_def)
  have bad: "converted AAC_better (demo_library demo_meta) ''abr'' broken_file =
        Inl (LibraryError ''not a valid FLAC file'')"
    by code_simp
  have mem: "broken_file \<in> set [demo_file, broken_file, other_file]" by simp
  from bad mem have fail: "\<exists>f \<in> set [demo_file, broken_file, other_file].
      \<exists>e. converted AAC_better (demo_library demo_meta) ''abr'' f = Inl e" by blast
  from failing_file_discards_batch [OF fmt sf sc fail]
  have a: "(\<exists>e. shown (process_files (demo_library demo_meta) (demo_session ''m4a'' ''abr'')
                    [demo_file, broken_file, other_file]) =
              [St_error (''An error occurred during conversion: '' @ str_exn e)])
     \<and> length (filter error_line
        (ss_logs (session (process_files (demo_library demo_meta) (demo_session ''m4a'' ''abr'')
                    [demo_file, broken_file, other_file])))) = 1"
    by blast
  have b: "shown (process_files (demo_library demo_meta) (demo_session ''m4a'' ''abr'')
               [demo_file, broken_file, other_file]) =
        [St_error ''An error occurred during conversion: not a valid FLAC file'']"
    by code_simp
  have c: "calls (process_files (demo_library demo_meta) (demo_session ''m4a'' ''abr'')
               [demo_file, broken_file, other_file]) =
        [Call_get_converter ''m4a'', Call_process AAC_better ''01 - Intro.v2.flac'',
         Call_process AAC_better ''broken.flac'']"
    by code_simp
  from fmt bad mem a b c show ?thesis by blast
qed

text \<open>
  C3. When every file of the batch converts, \<open>outs\<close> being the buffers returned: for
  one file, \<^verbatim>\<open>process_files\<close> offers that buffer itself under the name made of the
  stem of the file's name, a dot and the target format; for more than one file, it
  offers one archive named \<^verbatim>\<open>converted_audio.zip\<close>, opened with deflate
  compression, with one entry for each input, in input order, each named by the same
  rule and holding the bytes of that file's buffer.
\<close>

theorem batch_output_shape:
  assumes fmt: "get_converter selected_format = Inr c"
    and sf: "ss_format st = Some selected_format" and sc: "ss_type st = Some conversion_type"
    and ok: "map (converted c L conversion_type) files = map Inr outs"
  shows "(\<forall>f. files = [f] \<longrightarrow>
            shown (process_files L st files) =
              [St_success (''Conversion of '' @ quoted (name f) @ '' successful!''),
               St_download_button (''Download '' @ upper selected_format) (FileObject (hd outs))
                 (rsplit1_first CHR ''.'' (name f) @ ''.'' @ selected_format)
                 (''audio/'' @ (if selected_format = ''mp3'' then ''mpeg'' else ''mp4''))])
       \<and> (1 < length files \<longrightarrow>
            shown (process_files L st files) =
              [St_success ''All files converted and zipped successfully!'',
               St_download_button ''Download All as ZIP''
                 (ZipBytes \<lparr>compression = ZIP_DEFLATED,
                            entries = map (\<lambda>(f, out). (rsplit1_first CHR ''.'' (name f) @ ''.''
                                                          @ selected_format, getvalue out))
                                          (zip files outs)\<rparr>)
                 ''converted_audio.zip'' ''application/zip''])
       \<and> length (zip files outs) = length files
       \<and> uncaught (process_files L st files) = None
       \<and> calls (process_files L st files) =
           Call_get_converter selected_format # map (\<lambda>f. Call_process c (name f)) files
       \<and> (selected_format = ''mp3'' \<or> selected_format = ''m4a'')"
proof -
  from ok have len: "length outs = length files"
    using map_eq_imp_length_eq by fastforce
  have ext: "selected_format = ''mp3'' \<or> selected_format = ''m4a''"
    using fmt by (auto simp: get_converter_def split: if_splits)
  have single: "\<And>f. files = [f] \<Longrightarrow>
      process_files L st files =
        \<lparr>session = st\<lparr>ss_logs := batch_header 1 selected_format conversion_type
             @ snd (process c L f 320 conversion_type [] (name f))\<rparr>,
         shown =
           [St_success (''Conversion of '' @ quoted (name f) @ '' successful!''),
            St_download_button (''Download '' @ upper selected_format) (FileObject (hd outs))
              (new_filename (name f) selected_format)
              (''audio/'' @ (if selected_format = ''mp3'' then ''mpeg'' else ''mp4''))],
         calls = [Call_get_converter selected_format, Call_process c (name f)],
         uncaught = None\<rparr>"
  proof -
    fix f
    assume one: "files = [f]"
    with ok obtain out where o: "outs = [out]" "converted c L conversion_type f = Inr out"
      by (cases outs) auto
    show "process_files L st files =
        \<lparr>session = st\<lparr>ss_logs := batch_header 1 selected_format conversion_type
             @ snd (process c L f 320 conversion_type [] (name f))\<rparr>,
         shown =
           [St_success (''Conversion of '' @ quoted (name f) @ '' successful!''),
            St_download_button (''Download '' @ upper selected_format) (FileObject (hd outs))
              (new_filename (name f) selected_format)
              (''audio/'' @ (if selected_format = ''mp3'' then ''mpeg'' else ''mp4''))],
         calls = [Call_get_converter selected_format, Call_process c (name f)],
         uncaught = None\<rparr>"
      unfolding one using process_files_single [OF sf sc fmt, of L f] o by simp
  qed
  have multi: "length files \<noteq> 1 \<Longrightarrow>
      \<exists>lg. process_files L st files =
        \<lparr>session = st\<lparr>ss_logs := lg @ [dashes,
               ''BATCH SUCCESS: All files converted and zipped successfully!'']\<rparr>,
         shown =
           [St_success ''All files converted and zipped successfully!'',
            St_download_button ''Download All as ZIP''
              (ZipBytes \<lparr>compression = ZIP_DEFLATED,
                         entries = map (\<lambda>(f, out). (new_filename (name f) selected_format, getvalue out))
                                       (zip files outs)\<rparr>)
              ''converted_audio.zip'' ''application/zip''],
         calls = Call_get_converter selected_format # map (\<lambda>f. Call_process c (name f)) files,
         uncaught = None\<rparr>"
  proof -
    assume many: "length files \<noteq> 1"
    from zip_loop_success [OF ok, of selected_format "length files" 0 "[]"
        "batch_header (length files) selected_format conversion_type"
        "[Call_get_converter selected_format]"]
    obtain lg where z: "zip_loop c L selected_format conversion_type (length files) 0 files []
        (batch_header (length files) selected_format conversion_type)
        [Call_get_converter selected_format] =
       (Inr ([] @ map (\<lambda>(f, out). (new_filename (name f) selected_format, getvalue out))
                     (zip files outs)),
        lg, [Call_get_converter selected_format] @ map (\<lambda>f. Call_process c (name f)) files)"
      by blast
    have "process_files L st files =
        \<lparr>session = st\<lparr>ss_logs := lg @ [dashes,
               ''BATCH SUCCESS: All files converted and zipped successfully!'']\<rparr>,
         shown =
           [St_success ''All files converted and zipped successfully!'',
            St_download_button ''Download All as ZIP''
              (ZipBytes \<lparr>compression = ZIP_DEFLATED,
                         entries = map (\<lambda>(f, out). (new_filename (name f) selected_format, getvalue out))
                                       (zip files outs)\<rparr>)
              ''converted_audio.zip'' ''application/zip''],
         calls = Call_get_converter selected_format # map (\<lambda>f. Call_process c (name f)) files,
         uncaught = None\<rparr>"
      using process_files_multi [OF sf sc fmt many, of L] z by simp
    then show ?thesis by (rule exI [of _ lg])
  qed
  have a: "\<forall>f. files = [f] \<longrightarrow>
            shown (process_files L st files) =
              [St_success (''Conversion of '' @ quoted (name f) @ '' successful!''),
               St_download_button (''Download '' @ upper selected_format) (FileObject (hd outs))
                 (rsplit1_first CHR ''.'' (name f) @ ''.'' @ selected_format)
                 (''audio/'' @ (if selected_format = ''mp3'' then ''mpeg'' else ''mp4''))]"
    using single by (simp add: new_filename_def)
  have b: "1 < length files \<longrightarrow>
            shown (process_files L st files) =
              [St_success ''All files converted and zipped successfully!'',
               St_download_button ''Download All as ZIP''
                 (ZipBytes \<lparr>compression = ZIP_DEFLATED,
                            entries = map (\<lambda>(f, out). (rsplit1_first CHR ''.'' (name f) @ ''.''
                                                          @ selected_format, getvalue out))
                                          (zip files outs)\<rparr>)
                 ''converted_audio.zip'' ''application/zip'']"
  proof
    assume "1 < length files"
    then have "length files \<noteq> 1" by simp
    from multi [OF this] show "shown (process_files L st files) =
              [St_success ''All files converted and zipped successfully!'',
               St_download_button ''Download All as ZIP''
                 (ZipBytes \<lparr>compression = ZIP_DEFLATED,
                            entries = map (\<lambda>(f, out). (rsplit1_first CHR ''.'' (name f) @ ''.''
                                                          @ selected_format, getvalue out))
                                          (zip files outs)\<rparr>)
                 ''converted_audio.zip'' ''application/zip'']"
      by (auto simp: new_filename_def)
  qed
  have c: "uncaught (process_files L st files) = None
       \<and> calls (process_files L st files) =
           Call_get_converter selected_format # map (\<lambda>f. Call_process c (name f)) files"
  proof (cases "length files = 1")
    case True
    then obtain f where "files = [f]" by (cases files) auto
    with single [OF this] show ?thesis by simp
  next
    case False
    from multi [OF this] show ?thesis by auto
  qed
  from a b c len ext show ?thesis by simp
qed

theorem batch_output_witness:
  "get_converter ''m4a'' = Inr AAC_better
   \<and> map (converted AAC_better (demo_library demo_meta) ''abr'') [demo_file, other_file] =
       map Inr [\<lparr>getvalue = [109, 111, 111, 118, 4, 102, 76, 97, 67], tell = 4\<rparr>,
                \<lparr>getvalue = [109, 111, 111, 118, 4, 102, 76], tell = 4\<rparr>]
   \<and> shown (process_files (demo_library demo_meta) (demo_session ''m4a'' ''abr'') [demo_file, other_file]) =
       [St_success ''All files converted and zipped successfully!'',
        St_download_button ''Download All as ZIP''
          (ZipBytes \<lparr>compression = ZIP_DEFLATED,
                     entries = [(''01 - Intro.v2.m4a'', [109, 111, 111, 118, 4, 102, 76, 97, 67]),
                                (''outro.m4a'', [109, 111, 111, 118, 4, 102, 76])]\<rparr>)
          ''converted_audio.zip'' ''application/zip'']
   \<and> map (converted AAC_better (demo_library demo_meta) ''abr'') [demo_file] =
       map Inr [\<lparr>getvalue = [109, 111, 111, 118, 4, 102, 76, 97, 67], tell = 4\<rparr>]
   \<and> shown (process_files (demo_library demo_meta) (demo_session ''m4a'' ''abr'') [demo_file]) =
       [St_success (''Conversion of '' @ quoted ''01 - Intro.v2.flac'' @ '' successful!''),
        St_download_button ''Download M4A''
          (FileObject \<lparr>getvalue = [109, 111, 111, 118, 4, 102, 76, 97, 67], tell = 4\<rparr>)
          ''01 - Intro.v2.m4a'' ''audio/mp4'']"
proof -
  have fmt: "get_converter ''m4a'' = Inr AAC_better" by (simp add: get_converter_def)
  have sf: "ss_format (demo_session ''m4a'' ''abr'') = Some ''m4a''"
    and sc: "ss_type (demo_session ''m4a'' ''abr'') = Some ''abr''"
    by (simp_all add: demo_session_def)
  have ok2: "map (converted AAC_better (demo_library demo_meta) ''abr'') [demo_file, other_file] =
       map Inr [\<lparr>getvalue = [109, 111, 111, 118, 4, 102, 76, 97, 67], tell = 4\<rparr>,
                \<lparr>getvalue = [109, 111, 111, 118, 4, 102, 76], tell = 4\<rparr>]"
    by code_simp
  have ok1: "map (converted AAC_better (demo_library demo_meta) ''abr'') [demo_file] =
       map Inr [\<lparr>getvalue = [109, 111, 111, 118, 4, 102, 76, 97, 67], tell = 4\<rparr>]"
    by code_simp
  have n1: "rsplit1_first CHR ''.'' (name demo_file) = ''01 - Intro.v2''"
    and n2: "rsplit1_first CHR ''.'' (name other_file) = ''outro''"
    and n3: "name demo_file = ''01 - Intro.v2.flac''"
    and n4: "rsplit1_first CHR ''.'' ''01 - Intro.v2.flac'' = ''01 - Intro.v2''"
    and u: "upper ''m4a'' = ''M4A''"
    by code_simp+
  have many: "1 < length [demo_file, other_file]" by simp
  from batch_output_shape [OF fmt sf sc ok2, THEN conjunct2, THEN conjunct1, rule_format, OF many]
  have a: "shown (process_files (demo_library demo_meta) (demo_session ''m4a'' ''abr'') [demo_file, other_file]) =
       [St_success ''All files converted and zipped successfully!'',
        St_download_button ''Download All as ZIP''
          (ZipBytes \<lparr>compression = ZIP_DEFLATED,
                     entries = [(''01 - Intro.v2.m4a'', [109, 111, 111, 118, 4, 102, 76, 97, 67]),
                                (''outro.m4a'', [109, 111, 111, 118, 4, 102, 76])]\<rparr>)
          ''converted_audio.zip'' ''application/zip'']"
    by (simp add: n1 n2)
  from batch_output_shape [OF fmt sf sc ok1, THEN conjunct1, rule_format, of demo_file]
  have b: "shown (process_files (demo_library demo_meta) (demo_session ''m4a'' ''abr'') [demo_file]) =
       [St_success (''Conversion of '' @ quoted ''01 - Intro.v2.flac'' @ '' successful!''),
        St_download_button ''Download M4A''
          (FileObject \<lparr>getvalue = [109, 111, 111, 118, 4, 102, 76, 97, 67], tell = 4\<rparr>)
          ''01 - Intro.v2.m4a'' ''audio/mp4'']"
    by (simp add: n3 n4 u)
  from fmt ok2 a ok1 b show ?thesis by blast
qed

end
